theory Spec2Isabelle
  imports Main "HOL-Library.Word"
begin

section \<open>JavaScript strings\<close>

text \<open>
  A JavaScript string is a sequence of UTF-16 code units; \<open>length\<close> counts code units, so
  the emoji of the comment prefix is two characters long, as in the extension.
  \<open>js\<close> embeds an ASCII literal.
\<close>

type_synonym jchar = "16 word"
type_synonym jstring = "jchar list"

definition js :: "string \<Rightarrow> jstring" where
  "js s = map (\<lambda>c. of_nat (of_char c)) s"

text \<open>WhiteSpace and LineTerminator of ECMAScript: what \<open>trim\<close> and the regex \<open>\s\<close> match.\<close>

definition isWhiteSpace :: "jchar \<Rightarrow> bool" where
  "isWhiteSpace c =
     (c = 0x9 \<or> c = 0xA \<or> c = 0xB \<or> c = 0xC \<or> c = 0xD \<or> c = 0x20 \<or> c = 0xA0 \<or>
      c = 0x1680 \<or> (0x2000 \<le> c \<and> c \<le> 0x200A) \<or> c = 0x2028 \<or> c = 0x2029 \<or>
      c = 0x202F \<or> c = 0x205F \<or> c = 0x3000 \<or> c = 0xFEFF)"

definition trim :: "jstring \<Rightarrow> jstring" where
  "trim s = rev (dropWhile isWhiteSpace (rev (dropWhile isWhiteSpace s)))"

definition startsWith :: "jstring \<Rightarrow> jstring \<Rightarrow> bool" where
  "startsWith s p = (take (length p) s = p)"

fun includes_str :: "jstring \<Rightarrow> jstring \<Rightarrow> bool" where
  "includes_str [] t = (t = [])"
| "includes_str (c # s) t = (startsWith (c # s) t \<or> includes_str s t)"

definition substring0 :: "jstring \<Rightarrow> nat \<Rightarrow> jstring" where
  \<comment> \<open>\<open>s.substring(0, n)\<close>\<close>
  "substring0 s n = take n s"

text \<open>Template-literal conversion of a non-negative integer: its decimal digits.\<close>

fun toString :: "nat \<Rightarrow> jstring" where
  "toString n =
     (if n < 10 then [of_nat (48 + n)]
      else toString (n div 10) @ [of_nat (48 + n mod 10)])"

declare toString.simps [simp del]

text \<open>
  Truthiness of an optional string property: \<open>undefined\<close> and the empty string are falsy.
  \<open>orElse a d\<close> is \<open>a || d\<close>.
\<close>

fun truthy :: "jstring option \<Rightarrow> bool" where
  "truthy None = False"
| "truthy (Some s) = (s \<noteq> [])"

fun orElse :: "jstring option \<Rightarrow> jstring \<Rightarrow> jstring" where
  "orElse None d = d"
| "orElse (Some s) d = (if s = [] then d else s)"

section \<open>Documents\<close>

record document =
  uri :: jstring
  languageId :: jstring
  lines :: "jstring list"

definition lineCount :: "document \<Rightarrow> nat" where
  "lineCount d = length (lines d)"

text \<open>\<open>document.lineAt(n).text\<close>; the editor throws for a line that does not exist.\<close>

definition lineAt :: "document \<Rightarrow> nat \<Rightarrow> jstring option" where
  "lineAt d n = (if n < lineCount d then Some (lines d ! n) else None)"

section \<open>Auto-interpret mode: one request per line, inlay hints\<close>

record line_data =
  l_explanation :: "jstring option"
  l_error :: "jstring option"

text \<open>
  What \<open>fetch\<close> gives for one line: \<open>Inl msg\<close> when the promise rejects with an error of
  that message, otherwise the response with its \<open>ok\<close> flag and what \<open>response.json()\<close>
  resolves to (\<open>Inl msg\<close> when it rejects).
\<close>

record line_response =
  l_ok :: bool
  l_json :: "jstring + line_data"

type_synonym line_fetch = "jstring \<Rightarrow> jstring \<Rightarrow> jstring + line_response"

record line_result =
  r_lineNumber :: nat
  r_code :: jstring
  r_explanation :: jstring

text \<open>The \<open>try\<close> block of \<open>interpretLine\<close>: \<open>Inl msg\<close> is a thrown error.\<close>

definition interpretLine_try :: "line_fetch \<Rightarrow> jstring \<Rightarrow> jstring \<Rightarrow> jstring + jstring" where
  "interpretLine_try fetch language codeLine =
     (case fetch codeLine language of
        Inl msg \<Rightarrow> Inl msg
      | Inr response \<Rightarrow>
          if \<not> l_ok response then
            (case l_json response of
               Inl msg \<Rightarrow> Inl msg
             | Inr errorData \<Rightarrow> Inl (orElse (l_error errorData) (js ''API request failed'')))
          else
            (case l_json response of
               Inl msg \<Rightarrow> Inl msg
             | Inr data \<Rightarrow>
                 if truthy (l_error data) then Inl (orElse (l_error data) [])
                 else Inr (orElse (l_explanation data) (js ''Failed to get explanation''))))"

definition interpretLine :: "line_fetch \<Rightarrow> jstring \<Rightarrow> jstring \<Rightarrow> nat \<Rightarrow> line_result" where
  "interpretLine fetch language codeLine lineNumber =
     (case interpretLine_try fetch language codeLine of
        Inr explanation \<Rightarrow>
          \<lparr>r_lineNumber = lineNumber, r_code = codeLine, r_explanation = explanation\<rparr>
      | Inl message \<Rightarrow>
          \<lparr>r_lineNumber = lineNumber, r_code = codeLine,
           r_explanation = js ''Error during interpretation: '' @ message\<rparr>)"

record hint =
  position :: "nat \<times> nat"
  label :: jstring

text \<open>The guard of the loop of \<open>provideInlayHints\<close> that skips a line.\<close>

definition skippedByHints :: "jstring \<Rightarrow> bool" where
  "skippedByHints lineText =
     (lineText = [] \<or> startsWith lineText (js ''//'') \<or> startsWith lineText (js ''/*'') \<or>
      startsWith lineText (js ''*''))"

definition hintCacheKey :: "document \<Rightarrow> nat \<Rightarrow> jstring \<Rightarrow> jstring \<Rightarrow> jstring" where
  "hintCacheKey d i lineText language =
     uri d @ js '':'' @ toString i @ js '':'' @ lineText @ js '':'' @ language"

definition hintLabel :: "jstring \<Rightarrow> jstring" where
  "hintLabel explanation = [0x20, 0xD83D, 0xDCA1, 0x20] @ explanation"

text \<open>
  The \<open>for\<close> loop of \<open>provideInlayHints\<close>, from line \<open>i\<close> on: the cache and the hints
  collected so far are threaded through.
\<close>

function provideInlayHints_loop ::
  "line_fetch \<Rightarrow> jstring \<Rightarrow> document \<Rightarrow> nat \<Rightarrow> (jstring \<rightharpoonup> jstring) \<Rightarrow> hint list
    \<Rightarrow> hint list \<times> (jstring \<rightharpoonup> jstring)" where
  "provideInlayHints_loop fetch language d i cache hints =
     (if i < lineCount d \<and> i < 100 then
        (let line = lines d ! i; lineText = trim line in
         if skippedByHints lineText then
           provideInlayHints_loop fetch language d (Suc i) cache hints
         else
           (let cacheKey = hintCacheKey d i lineText language in
            if truthy (cache cacheKey) then
              provideInlayHints_loop fetch language d (Suc i) cache
                (hints @ [\<lparr>position = (i, length line),
                           label = hintLabel (orElse (cache cacheKey) [])\<rparr>])
            else
              (let explanation = r_explanation (interpretLine fetch language lineText (i + 1)) in
               provideInlayHints_loop fetch language d (Suc i) (cache(cacheKey \<mapsto> explanation))
                 (hints @ [\<lparr>position = (i, length line), label = hintLabel explanation\<rparr>]))))
      else (hints, cache))"
  by pat_completeness auto
termination
  by (relation "measure (\<lambda>(fetch, language, d, i, cache, hints). lineCount d - i)") auto

declare provideInlayHints_loop.simps [simp del]

definition provideInlayHints ::
  "bool \<Rightarrow> line_fetch \<Rightarrow> jstring \<Rightarrow> document \<Rightarrow> (jstring \<rightharpoonup> jstring)
    \<Rightarrow> hint list \<times> (jstring \<rightharpoonup> jstring)" where
  "provideInlayHints isAutoInterpretEnabled fetch language d cache =
     (if \<not> isAutoInterpretEnabled then ([], cache)
      else provideInlayHints_loop fetch language d 0 cache [])"

section \<open>Selection mode: the lines sent for interpretation\<close>

record selection =
  start_line :: nat
  start_character :: nat
  end_line :: nat
  end_character :: nat

definition isEmpty :: "selection \<Rightarrow> bool" where
  "isEmpty s = (start_line s = end_line s \<and> start_character s = end_character s)"

text \<open>A JavaScript \<open>Set\<close> of numbers: insertion order, no element twice.\<close>

definition set_add :: "nat list \<Rightarrow> nat \<Rightarrow> nat list" where
  "set_add s n = (if n \<in> set s then s else s @ [n])"

definition selectedLinesOf :: "selection list \<Rightarrow> nat list" where
  "selectedLinesOf selections =
     foldl (\<lambda>selectedLines s. foldl set_add selectedLines [start_line s ..< Suc (end_line s)])
       [] selections"

text \<open>The test of \<open>interpretSelectedLines\<close> that keeps a trimmed line as a code line.\<close>

definition isCodeLine :: "jstring \<Rightarrow> bool" where
  "isCodeLine trimmedLine =
     (trimmedLine \<noteq> [] \<and>
      \<not> startsWith trimmedLine (js ''//'') \<and>
      \<not> startsWith trimmedLine (js ''/*'') \<and>
      \<not> startsWith trimmedLine (js ''*'') \<and>
      \<not> startsWith trimmedLine (js ''#'') \<and>
      \<not> startsWith trimmedLine (js ''--'') \<and>
      \<not> startsWith trimmedLine [0x27])"

text \<open>
  The \<open>forEach\<close> over the selected lines that fills \<open>lines\<close>; \<open>None\<close> when \<open>lineAt\<close>
  throws.
\<close>

fun collectCodeLines :: "document \<Rightarrow> nat list \<Rightarrow> (nat \<times> jstring) list \<Rightarrow> (nat \<times> jstring) list option" where
  "collectCodeLines d [] acc = Some acc"
| "collectCodeLines d (lineNumber # rest) acc =
     (case lineAt d lineNumber of
        None \<Rightarrow> None
      | Some text \<Rightarrow>
          (let trimmedLine = trim text in
           if isCodeLine trimmedLine then collectCodeLines d rest (acc @ [(lineNumber, trimmedLine)])
           else collectCodeLines d rest acc))"

text \<open>
  The head of \<open>interpretSelectedLines\<close>, down to the array \<open>lines\<close> that it sends for
  interpretation: nothing is sent when there is no active editor or nothing is selected.
  \<open>activeDocument\<close> is the document of the active editor.
\<close>

definition linesToInterpret :: "document option \<Rightarrow> selection list \<Rightarrow> (nat \<times> jstring) list option" where
  "linesToInterpret activeDocument selections =
     (case activeDocument of
        None \<Rightarrow> Some []
      | Some d \<Rightarrow>
          if selections = [] \<or> list_all isEmpty selections then Some []
          else collectCodeLines d (selectedLinesOf selections) [])"

section \<open>Batched interpretation: \<open>interpretLines\<close>\<close>

text \<open>
  The payload of the service as the extension declares it: every property is optional.
  \<open>message\<close> is read on a non-2xx answer only.
\<close>

record explanation_item =
  lineNumber :: int
  explanation :: jstring

record payload =
  explanations :: "explanation_item list option"
  error :: "jstring option"
  body :: "jstring option"
  message :: "jstring option"

text \<open>
  \<open>JSON.parse\<close> and \<open>JSON.stringify\<close> belong to the platform and are parameters of the
  model. \<open>JSON.parse\<close> gives \<open>Inl msg\<close> when it throws a SyntaxError of message \<open>msg\<close>.
\<close>

type_synonym json_parse = "jstring \<Rightarrow> jstring + payload"
type_synonym json_stringify = "payload \<Rightarrow> jstring"

record http_response =
  ok :: bool
  status :: nat
  statusText :: jstring
  responseText :: jstring

text \<open>
  The network: \<open>Inl msg\<close> when \<open>fetch\<close> (or reading the text of the response, the next
  statement) rejects with an error of message \<open>msg\<close>.
\<close>

type_synonym batch_fetch = "jstring list \<Rightarrow> jstring \<Rightarrow> jstring + http_response"

fun join :: "jstring list \<Rightarrow> jstring \<Rightarrow> jstring" where
  "join [] sep = []"
| "join [x] sep = x"
| "join (x # y # ys) sep = x @ sep @ join (y # ys) sep"

definition cacheKeyOf :: "jstring list \<Rightarrow> jstring \<Rightarrow> jstring" where
  "cacheKeyOf codeLines language = join codeLines [0xA] @ js '':'' @ language"

text \<open>
  The cache lookup at the head of \<open>interpretLines\<close>: the explanations of a cached text
  that is non-empty, parses and has an \<open>explanations\<close> property; \<open>None\<close> when the function
  goes on to the network.
\<close>

definition cachedExplanations ::
  "json_parse \<Rightarrow> (jstring \<rightharpoonup> jstring) \<Rightarrow> jstring \<Rightarrow> explanation_item list option" where
  "cachedExplanations JSON_parse interpretationCache cacheKey =
     (let cached = interpretationCache cacheKey in
      if truthy cached then
        (case JSON_parse (orElse cached []) of
           Inr cachedData \<Rightarrow> explanations cachedData
         | Inl _ \<Rightarrow> None)
      else None)"

text \<open>The replay of a cached answer: every item is stored, whatever its line number.\<close>

definition replayCached :: "explanation_item list \<Rightarrow> (int \<rightharpoonup> jstring)" where
  "replayCached items =
     foldl (\<lambda>result item. result(lineNumber item - 1 \<mapsto> explanation item)) Map.empty items"

text \<open>The answer of the network: only the items whose index lies in the request are stored.\<close>

definition collectExplanations :: "nat \<Rightarrow> explanation_item list \<Rightarrow> (int \<rightharpoonup> jstring)" where
  "collectExplanations n items =
     foldl (\<lambda>result item.
              (let index = lineNumber item - 1 in
               if index \<ge> 0 \<and> index < int n then result(index \<mapsto> explanation item)
               else result))
       Map.empty items"

text \<open>The message thrown for a response that is not \<open>ok\<close>.\<close>

definition httpErrorMessage :: "json_parse \<Rightarrow> http_response \<Rightarrow> jstring" where
  "httpErrorMessage JSON_parse response =
     (let errorMessage = js ''HTTP '' @ toString (status response) @ js '': '' @ statusText response in
      case JSON_parse (responseText response) of
        Inr errorData \<Rightarrow> orElse (error errorData) (orElse (message errorData) errorMessage)
      | Inl _ \<Rightarrow>
          if responseText response \<noteq> [] then substring0 (responseText response) 200
          else errorMessage)"

text \<open>
  The text of an \<open>ok\<close> response, parsed and unwrapped by one level when it has a \<open>body\<close>;
  \<open>Inl msg\<close> is a thrown error.
\<close>

definition parsePayload :: "json_parse \<Rightarrow> jstring \<Rightarrow> jstring + payload" where
  "parsePayload JSON_parse text =
     (case JSON_parse text of
        Inl _ \<Rightarrow> Inl (js ''Invalid response format: '' @ substring0 text 100)
      | Inr data \<Rightarrow>
          if truthy (error data) then Inl (js ''Server error: '' @ orElse (error data) [])
          else if truthy (body data) then
            (case JSON_parse (orElse (body data) []) of
               Inl parseErrorMessage \<Rightarrow>
                 if parseErrorMessage \<noteq> [] \<and> includes_str parseErrorMessage (js ''Server error'')
                 then Inl parseErrorMessage
                 else Inl (js ''Failed to parse response body'')
             | Inr bodyData \<Rightarrow>
                 if truthy (error bodyData)
                 then Inl (js ''Server error: '' @ orElse (error bodyData) [])
                 else Inr bodyData)
          else Inr data)"

text \<open>From the request to the payload: \<open>fetch\<close>, the status check, the parse.\<close>

definition requestPayload ::
  "json_parse \<Rightarrow> batch_fetch \<Rightarrow> jstring \<Rightarrow> jstring list \<Rightarrow> jstring + payload" where
  "requestPayload JSON_parse fetch language codeLines =
     (case fetch codeLines language of
        Inl msg \<Rightarrow> Inl msg
      | Inr response \<Rightarrow>
          if \<not> ok response then Inl (httpErrorMessage JSON_parse response)
          else parsePayload JSON_parse (responseText response))"

text \<open>The \<open>catch\<close> block: the message every line gets, and the map it fills.\<close>

definition catchMessage :: "jstring \<Rightarrow> jstring" where
  "catchMessage msg =
     (if msg \<noteq> [] \<and>
         (includes_str msg (js ''Failed to fetch'') \<or> includes_str msg (js ''NetworkError'') \<or>
          includes_str msg (js ''The request''))
      then js ''Network error. Please check your internet connection and try again.''
      else if msg = [] then js ''Unknown error occurred'' else msg)"

definition errorResult :: "jstring list \<Rightarrow> jstring \<Rightarrow> (int \<rightharpoonup> jstring)" where
  "errorResult codeLines msg =
     foldl (\<lambda>result index. result(int index \<mapsto> js ''Error: '' @ catchMessage msg))
       Map.empty [0 ..< length codeLines]"

text \<open>
  What a call leaves: the map it resolves with, the cache, the number of requests it sent,
  and whether it went through its \<open>catch\<close> block.
\<close>

record outcome =
  o_result :: "int \<rightharpoonup> jstring"
  o_cache :: "jstring \<rightharpoonup> jstring"
  o_requests :: nat
  o_failed :: bool

definition interpretLines ::
  "json_parse \<Rightarrow> json_stringify \<Rightarrow> batch_fetch \<Rightarrow> jstring \<Rightarrow> (jstring \<rightharpoonup> jstring)
    \<Rightarrow> jstring list \<Rightarrow> outcome" where
  "interpretLines JSON_parse JSON_stringify fetch language interpretationCache codeLines =
     (let cacheKey = cacheKeyOf codeLines language in
      case cachedExplanations JSON_parse interpretationCache cacheKey of
        Some items \<Rightarrow>
          \<lparr>o_result = replayCached items, o_cache = interpretationCache,
           o_requests = 0, o_failed = False\<rparr>
      | None \<Rightarrow>
          (case requestPayload JSON_parse fetch language codeLines of
             Inl msg \<Rightarrow>
               \<lparr>o_result = errorResult codeLines msg, o_cache = interpretationCache,
                o_requests = 1, o_failed = True\<rparr>
           | Inr data \<Rightarrow>
               (case explanations data of
                  Some items \<Rightarrow>
                    \<lparr>o_result = collectExplanations (length codeLines) items,
                     o_cache = interpretationCache(cacheKey \<mapsto> JSON_stringify data),
                     o_requests = 1, o_failed = False\<rparr>
                | None \<Rightarrow>
                    \<lparr>o_result =
                       errorResult codeLines
                         (js ''Invalid response format: explanations array not found''),
                     o_cache = interpretationCache, o_requests = 1, o_failed = True\<rparr>)))"

section \<open>Concrete platforms for running the model\<close>

text \<open>
  \<open>JSON.parse\<close> and \<open>JSON.stringify\<close> on the finitely many texts of a table, each with
  the payload it denotes: any other text is a syntax error. \<open>respond\<close> is a service that
  gives one response to every request, \<open>offline\<close> a network that is down.
\<close>

definition tableParse :: "(jstring \<times> payload) list \<Rightarrow> json_parse" where
  "tableParse table text =
     (case map_of table text of
        Some data \<Rightarrow> Inr data
      | None \<Rightarrow> Inl (js ''Unexpected token''))"

definition tableStringify :: "(jstring \<times> payload) list \<Rightarrow> json_stringify" where
  "tableStringify table data =
     (case find (\<lambda>entry. snd entry = data) table of
        Some entry \<Rightarrow> fst entry
      | None \<Rightarrow> js ''{}'')"

definition respond :: "http_response \<Rightarrow> batch_fetch" where
  "respond response codeLines language = Inr response"

definition offline :: batch_fetch where
  "offline codeLines language = Inl (js ''Failed to fetch'')"

definition emptyPayload :: payload where
  "emptyPayload = \<lparr>explanations = None, error = None, body = None, message = None\<rparr>"

definition noCache :: "jstring \<rightharpoonup> jstring" where
  "noCache = Map.empty"

text \<open>
  The JSON string literal of a text that has no control character: quotes and backslashes
  are escaped.
\<close>

definition jsonQuote :: "jstring \<Rightarrow> jstring" where
  "jsonQuote s =
     [0x22] @ concat (map (\<lambda>c. if c = 0x22 \<or> c = 0x5C then [0x5C, c] else [c]) s) @ [0x22]"

definition okResponse :: "jstring \<Rightarrow> http_response" where
  "okResponse text = \<lparr>ok = True, status = 200, statusText = js ''OK'', responseText = text\<rparr>"

text \<open>The answer of the specification's example, flat and wrapped in a \<open>body\<close>.\<close>

definition flatText :: jstring where
  \<open>flatText =
     js ''{"explanations":[{"lineNumber":1,"explanation":"Declares a constant x with value 10"}]}''\<close>

definition flatPayload :: payload where
  "flatPayload =
     emptyPayload\<lparr>explanations :=
       Some [\<lparr>lineNumber = 1, explanation = js ''Declares a constant x with value 10''\<rparr>]\<rparr>"

definition wrappedText :: jstring where
  \<open>wrappedText = js ''{"body":'' @ jsonQuote flatText @ js ''}''\<close>

text \<open>
  Answers that carry an \<open>error\<close>: at the top, inside the \<open>body\<close>, and an empty one; an
  answer whose \<open>body\<close> is not JSON.
\<close>

definition errorText :: jstring where
  \<open>errorText = js ''{"error":"rate limited"}''\<close>

definition wrappedErrorText :: jstring where
  \<open>wrappedErrorText = js ''{"body":'' @ jsonQuote errorText @ js ''}''\<close>

definition emptyErrorText :: jstring where
  \<open>emptyErrorText =
     js ''{"error":"","explanations":[{"lineNumber":1,"explanation":"Declares a constant x with value 10"}]}''\<close>

definition badBodyText :: jstring where
  \<open>badBodyText = js ''{"body":"oops"}''\<close>

definition demoTable :: "(jstring \<times> payload) list" where
  "demoTable =
     [(flatText, flatPayload),
      (wrappedText, emptyPayload\<lparr>body := Some flatText\<rparr>),
      (errorText, emptyPayload\<lparr>error := Some (js ''rate limited'')\<rparr>),
      (wrappedErrorText, emptyPayload\<lparr>body := Some errorText\<rparr>),
      (emptyErrorText, flatPayload\<lparr>error := Some []\<rparr>),
      (js ''{}'', emptyPayload),
      (badBodyText, emptyPayload\<lparr>body := Some (js ''oops'')\<rparr>)]"

definition demoLines :: "jstring list" where
  "demoLines = [js ''const x = 10;'']"

definition rateLimitedResponse :: http_response where
  "rateLimitedResponse =
     \<lparr>ok = False, status = 500, statusText = js ''Internal Server Error'',
      responseText = errorText\<rparr>"

text \<open>
  Documents for concrete runs: a Python file that opens with a comment, and a file of 101
  code lines with the selection that covers it. \<open>lineOffline\<close> is the network being down
  for the requests of single lines.
\<close>

definition lineOffline :: line_fetch where
  "lineOffline codeLine language = Inl (js ''Failed to fetch'')"

definition pythonDocument :: document where
  "pythonDocument =
     \<lparr>uri = js ''file:///demo.py'', languageId = js ''python'',
      lines = [js ''# setup'', js ''x = 1'']\<rparr>"

definition longDocument :: document where
  "longDocument =
     \<lparr>uri = js ''file:///long.js'', languageId = js ''javascript'',
      lines = replicate 101 (js ''f();'')\<rparr>"

definition wholeSelection :: selection where
  "wholeSelection = \<lparr>start_line = 0, start_character = 0, end_line = 100, end_character = 4\<rparr>"

definition pythonSelection :: selection where
  "pythonSelection = \<lparr>start_line = 0, start_character = 0, end_line = 1, end_character = 5\<rparr>"

section \<open>Persistent comments: \<open>insertCommentsAsExplanations\<close>\<close>

definition brain :: jstring where
  \<comment> \<open>the emoji of the comment prefix, a surrogate pair\<close>
  "brain = [0xD83E, 0xDDE0]"

definition getCommentPrefix :: "jstring \<Rightarrow> jstring" where
  "getCommentPrefix langId =
     (if langId = js ''python'' then js ''# '' @ brain @ js '' ''
      else if langId \<in> set (map js [''javascript'', ''typescript'', ''javascriptreact'',
                ''typescriptreact'', ''java'', ''c'', ''cpp'', ''csharp'', ''go'', ''rust'',
                ''swift'', ''kotlin'', ''dart''])
        then js ''// '' @ brain @ js '' ''
      else if langId \<in> set (map js [''html'', ''xml'']) then js ''<!-- '' @ brain @ js '' ''
      else if langId \<in> set (map js [''css'', ''scss'', ''less'', ''sass''])
        then js ''/* '' @ brain @ js '' ''
      else if langId = js ''sql'' then js ''-- '' @ brain @ js '' ''
      else if langId \<in> set (map js [''shellscript'', ''bash'', ''powershell'', ''yaml'', ''yml''])
        then js ''# '' @ brain @ js '' ''
      else if langId \<in> set (map js [''ruby'', ''perl'', ''lua''])
        then js ''# '' @ brain @ js '' ''
      else js ''// '' @ brain @ js '' '')"

definition getCommentSuffix :: "jstring \<Rightarrow> jstring" where
  "getCommentSuffix langId =
     (if langId \<in> set (map js [''html'', ''xml'']) then js '' -->''
      else if langId \<in> set (map js [''css'', ''scss'', ''less'', ''sass'']) then js '' */''
      else [])"

definition commentPatterns :: "jstring list" where
  "commentPatterns = map js [''//'', ''#'', ''--'', ''<!--'', ''/*'']"

text \<open>
  \<open>s.replace(/p/g, '')\<close> for a literal pattern \<open>p\<close>: the matches are found from left to
  right and do not overlap.
\<close>

function stripAll :: "jstring \<Rightarrow> jstring \<Rightarrow> jstring" where
  "stripAll p [] = []"
| "stripAll p (c # s) =
     (if p \<noteq> [] \<and> startsWith (c # s) p then stripAll p (drop (length p) (c # s))
      else c # stripAll p s)"
  by pat_completeness auto
termination
  by (relation "measure (\<lambda>(p, s). length s)") auto

text \<open>\<open>s.replace(/\s+/g, ' ')\<close>: every run of white space becomes one space.\<close>

function collapseWhiteSpace :: "jstring \<Rightarrow> jstring" where
  "collapseWhiteSpace [] = []"
| "collapseWhiteSpace (c # s) =
     (if isWhiteSpace c then 0x20 # collapseWhiteSpace (dropWhile isWhiteSpace s)
      else c # collapseWhiteSpace s)"
  by pat_completeness auto
termination
  by (relation "measure length") (auto simp: length_dropWhile_le less_Suc_eq_le)

text \<open>The chain of replacements that cleans an explanation, in the order of the source.\<close>

definition cleanExplanation :: "jstring \<Rightarrow> jstring" where
  "cleanExplanation rawExplanation =
     trim (collapseWhiteSpace (map (\<lambda>c. if c = 0xA then 0x20 else c)
       (stripAll (js ''*/'') (stripAll (js ''/*'') (stripAll (js ''<!--'')
       (stripAll (js ''--'') (stripAll (js ''#'') (stripAll (js ''//'')
       (stripAll ([0xD569, 0xB2C8, 0xB2E4] @ js ''.'') (stripAll [0xD569, 0xB2C8, 0xB2E4]
       (stripAll [0xCF54, 0xB4DC, 0xB294] (stripAll [0xC774, 0x20, 0xCF54, 0xB4DC, 0xB294]
       (stripAll [0xC124, 0xBA85] rawExplanation)))))))))))))"

text \<open>\<open>s.split(' ')\<close>\<close>

fun split :: "jstring \<Rightarrow> jstring list" where
  "split [] = [[]]"
| "split (c # s) =
     (if c = 0x20 then [] # split s
      else (case split s of
              [] \<Rightarrow> [[c]]
            | w # ws \<Rightarrow> (c # w) # ws))"

text \<open>
  One turn of the loop over the words of a long explanation: the state is the line being
  filled and the text of the lines already flushed.
\<close>

definition wrapStep ::
  "jstring \<Rightarrow> jstring \<Rightarrow> jstring \<Rightarrow> nat \<Rightarrow> jstring \<times> jstring \<Rightarrow> jstring \<Rightarrow> jstring \<times> jstring" where
  "wrapStep indent commentPrefix commentSuffix maxLen state word =
     (let currentLine = fst state; commentText = snd state;
          testLine =
            currentLine @ (if currentLine = commentPrefix then [] else [0x20]) @ word @ commentSuffix in
      if length testLine > maxLen \<and> currentLine \<noteq> commentPrefix then
        (commentPrefix @ word, commentText @ indent @ currentLine @ commentSuffix @ [0xA])
      else
        ((if currentLine \<noteq> commentPrefix then currentLine @ [0x20] else currentLine) @ word,
         commentText))"

text \<open>The loop, and the statement after it that flushes the last line.\<close>

definition wrapWords :: "jstring \<Rightarrow> jstring \<Rightarrow> jstring \<Rightarrow> nat \<Rightarrow> jstring list \<Rightarrow> jstring" where
  "wrapWords indent commentPrefix commentSuffix maxLen words =
     (let state = foldl (wrapStep indent commentPrefix commentSuffix maxLen) (commentPrefix, []) words
      in snd state @ indent @ fst state @ commentSuffix @ [0xA])"

definition maxLength :: nat where
  "maxLength = 100"

definition commentTextOf :: "jstring \<Rightarrow> jstring \<Rightarrow> jstring \<Rightarrow> jstring \<Rightarrow> jstring" where
  "commentTextOf indent commentPrefix commentSuffix rawExplanation =
     (let cleanedExplanation = cleanExplanation rawExplanation in
      if length cleanedExplanation \<le> maxLength then
        indent @ commentPrefix @ cleanedExplanation @ commentSuffix @ [0xA]
      else
        wrapWords indent commentPrefix commentSuffix maxLength (split cleanedExplanation))"

text \<open>
  The edits given to the edit builder: the deletion of a whole line, the insertion of a
  text at a position.
\<close>

datatype edit = Delete nat | Insert "nat \<times> nat" jstring

text \<open>
  The \<open>while\<close> loop that deletes the explanation comments found below a line: the lines
  it deletes, from \<open>deleteLine\<close> on.
\<close>

function deleteLoop :: "document \<Rightarrow> nat \<Rightarrow> nat list" where
  "deleteLoop d deleteLine =
     (if deleteLine < lineCount d then
        (let trimmed = trim (lines d ! deleteLine);
             isComment = (list_ex (\<lambda>pattern. startsWith trimmed pattern) commentPatterns \<and>
                          includes_str trimmed brain) in
         if isComment then deleteLine # deleteLoop d (Suc deleteLine) else [])
      else [])"
  by pat_completeness auto
termination
  by (relation "measure (\<lambda>(d, deleteLine). lineCount d - deleteLine)") auto

declare deleteLoop.simps [simp del]

text \<open>
  The callback of \<open>editor.edit\<close>: the loop over the sorted line numbers. The explanations
  (\<open>explanationMap\<close>) are a JavaScript \<open>Map\<close>, here the list of its entries. The edits are \<open>None\<close> when
  \<open>lineAt\<close> throws; the set of annotated lines is changed in place and keeps what was
  added before the throw.
\<close>

function editLoop ::
  "document \<Rightarrow> (nat \<times> jstring) list \<Rightarrow> nat list \<Rightarrow> edit list \<Rightarrow> nat set
    \<Rightarrow> edit list option \<times> nat set" where
  "editLoop d explanationMap [] edits insertedSet = (Some edits, insertedSet)"
| "editLoop d explanationMap (lineNo # rest) edits insertedSet =
     (if \<not> truthy (map_of explanationMap lineNo) then
        editLoop d explanationMap rest edits insertedSet
      else
        (let deletions =
               (if lineNo \<in> insertedSet then map Delete (deleteLoop d (lineNo + 1))
                else []);
             insertLine = lineNo + 1 in
         case lineAt d lineNo of
           None \<Rightarrow> (None, insertedSet)
         | Some codeLineText \<Rightarrow>
             (let indent = takeWhile isWhiteSpace codeLineText;
                  commentText =
                    commentTextOf indent (getCommentPrefix (languageId d))
                      (getCommentSuffix (languageId d))
                      (orElse (map_of explanationMap lineNo) [])
              in editLoop d explanationMap rest
                   (edits @ deletions @ [Insert (insertLine, 0) commentText])
                   (insert lineNo insertedSet))))"
  by pat_completeness auto
termination
  by (relation "measure (\<lambda>(d, explanationMap, sortedLines, edits, insertedSet).
      length sortedLines)") auto

text \<open>
  What the call did to the document: nothing (it returned before \<open>editor.edit\<close>), one
  edit transaction with its edits in the order they were given, or a throw in the callback.
\<close>

datatype edit_result = NotEdited | Edited "edit list" | EditThrew

text \<open>
  \<open>activeEditor\<close> is the URI of the document of the active editor, \<open>None\<close> when there is
  no active editor. The sort is \<open>sort((a, b) => b - a)\<close>: descending.
\<close>

definition insertCommentsAsExplanations ::
  "jstring option \<Rightarrow> document \<Rightarrow> (nat \<times> jstring) list \<Rightarrow> (jstring \<rightharpoonup> nat set)
    \<Rightarrow> edit_result \<times> (jstring \<rightharpoonup> nat set)" where
  "insertCommentsAsExplanations activeEditor d explanationMap insertedComments =
     (case activeEditor of
        None \<Rightarrow> (NotEdited, insertedComments)
      | Some editorUri \<Rightarrow>
          if editorUri \<noteq> uri d then (NotEdited, insertedComments)
          else
            (let insertedSet = (case insertedComments (uri d) of Some s \<Rightarrow> s | None \<Rightarrow> {});
                 sortedLines = rev (sort (map fst explanationMap));
                 (edits, insertedSet') = editLoop d explanationMap sortedLines [] insertedSet
             in ((case edits of None \<Rightarrow> EditThrew | Some es \<Rightarrow> Edited es),
                 insertedComments(uri d \<mapsto> insertedSet'))))"

text \<open>The lines at which a transaction inserts, in the order of its insertions.\<close>

fun insertLines :: "edit list \<Rightarrow> nat list" where
  "insertLines [] = []"
| "insertLines (Delete n # es) = insertLines es"
| "insertLines (Insert p t # es) = fst p # insertLines es"







text \<open>Explanations for concrete runs, and an empty record of the annotated lines.\<close>

definition demoExplanations :: "(nat \<times> jstring) list" where
  "demoExplanations = [(0, js ''Marks the start of the setup''), (1, js ''Sets x to 1'')]"

definition noComments :: "jstring \<rightharpoonup> nat set" where
  "noComments = Map.empty"




section \<open>Block mode\<close>

text \<open>
  \<open>parseCodeBlocks\<close>, of the version of the extension that interprets a file by blocks
  (its listing is kept in \<open>README.md\<close>). A block is a span of lines with the text of
  these lines, joined by line breaks.
\<close>

record code_block =
  startLine :: nat
  endLine :: nat
  code :: jstring

text \<open>\<open>lines.slice(first, beyond)\<close> for indices that are not negative.\<close>

definition slice :: "'a list \<Rightarrow> nat \<Rightarrow> nat \<Rightarrow> 'a list" where
  "slice xs first beyond = take (beyond - first) (drop first xs)"

definition blockKeywords :: "jstring list" where
  "blockKeywords =
     map js [''function'', ''class'', ''if'', ''for'', ''while'', ''switch'', ''try'', ''catch'',
             ''finally'', ''else'']"

text \<open>
  The regular expression \<open>/=>\s*\{/\<close>: somewhere in the line an arrow, then white space
  or none, then an opening brace.
\<close>

fun arrowBrace :: "jstring \<Rightarrow> bool" where
  "arrowBrace [] = False"
| "arrowBrace (c # s) =
     ((startsWith (c # s) (js ''=>'') \<and>
       (case dropWhile isWhiteSpace (drop 2 (c # s)) of [] \<Rightarrow> False | b # _ \<Rightarrow> b = 0x7B)) \<or>
      arrowBrace s)"

text \<open>
  The three tests of \<open>isBlockStart\<close>, in the order of the source: the line starts, after
  white space, with one of the keywords (the last alternative of the expression is
  \<open>else\<close>, white space, \<open>if\<close>; nothing has to follow a keyword); the last character
  that is not white space is an opening brace (\<open>/\{\s*$/\<close>); the line has an arrow
  before an opening brace.
\<close>

definition isBlockStart :: "jstring \<Rightarrow> bool" where
  "isBlockStart trimmedLine =
     ((let rest = dropWhile isWhiteSpace trimmedLine in
         list_ex (\<lambda>keyword. startsWith rest keyword) blockKeywords \<or>
         (startsWith rest (js ''else'') \<and>
          (let tail = drop 4 rest in
             tail \<noteq> [] \<and> isWhiteSpace (hd tail) \<and>
             startsWith (dropWhile isWhiteSpace tail) (js ''if'')))) \<or>
      (case dropWhile isWhiteSpace (rev trimmedLine) of [] \<Rightarrow> False | b # _ \<Rightarrow> b = 0x7B) \<or>
      arrowBrace trimmedLine)"

text \<open>
  The state of the scan: the brace depth, which is an integer and goes below zero at a
  closing brace that closes nothing; the line where the pending block began
  (\<open>blockStart\<close>, where \<open>None\<close> stands for the \<open>-1\<close> of the source; the source also
  sets \<open>blockStartLine\<close>, which it never reads); the blocks found.
\<close>

record block_scan =
  braceDepth :: int
  blockStart :: "nat option"
  blocks :: "code_block list"

text \<open>
  The body of the inner loop, for the character \<open>c\<close> of line \<open>i\<close>; \<open>ls\<close> are all the
  lines of the document and \<open>blockStartFlag\<close> is \<open>isBlockStart\<close> of the line.
\<close>

definition scanChar :: "jstring list \<Rightarrow> nat \<Rightarrow> bool \<Rightarrow> block_scan \<Rightarrow> jchar \<Rightarrow> block_scan" where
  "scanChar ls i blockStartFlag st c =
     (if c = 0x7B then
        st\<lparr>blockStart := (if braceDepth st = 0 \<and> blockStartFlag then Some i else blockStart st),
           braceDepth := braceDepth st + 1\<rparr>
      else if c = 0x7D then
        (if braceDepth st - 1 = 0 then
           (case blockStart st of
              Some s \<Rightarrow>
                st\<lparr>braceDepth := braceDepth st - 1,
                   blocks := blocks st @
                     [\<lparr>startLine = s, endLine = i, code = join (slice ls s (i + 1)) [0xA]\<rparr>],
                   blockStart := None\<rparr>
            | None \<Rightarrow> st\<lparr>braceDepth := braceDepth st - 1\<rparr>)
         else st\<lparr>braceDepth := braceDepth st - 1\<rparr>)
      else st)"

text \<open>
  The body of the outer loop: a line that is blank or starts with \<open>//\<close>, \<open>/*\<close> or \<open>*\<close>
  is passed over with its braces; the characters of any other line are scanned, not
  those of the trimmed line.
\<close>

definition scanLine :: "jstring list \<Rightarrow> block_scan \<Rightarrow> nat \<times> jstring \<Rightarrow> block_scan" where
  "scanLine ls st numbered =
     (let i = fst numbered; line = snd numbered; trimmedLine = trim line in
      if trimmedLine = [] \<or> startsWith trimmedLine (js ''//'') \<or>
         startsWith trimmedLine (js ''/*'') \<or> startsWith trimmedLine (js ''*'')
      then st
      else foldl (scanChar ls i (isBlockStart trimmedLine)) st line)"

text \<open>
  The blocks of a document. When the scan has found none, every line that is not blank
  and does not start with \<open>//\<close>, \<open>/*\<close> or \<open>*\<close> is a block of its own, with the trimmed
  line as its text.
\<close>

definition parseCodeBlocks :: "document \<Rightarrow> code_block list" where
  "parseCodeBlocks d =
     (let ls = lines d;
          found = blocks (foldl (scanLine ls) \<lparr>braceDepth = 0, blockStart = None, blocks = []\<rparr>
                            (enumerate 0 ls))
      in if found = [] then
           map (\<lambda>numbered. \<lparr>startLine = fst numbered, endLine = fst numbered,
                              code = trim (snd numbered)\<rparr>)
             (filter (\<lambda>numbered.
                        let trimmedLine = trim (snd numbered) in
                        trimmedLine \<noteq> [] \<and> \<not> startsWith trimmedLine (js ''//'') \<and>
                        \<not> startsWith trimmedLine (js ''/*'') \<and>
                        \<not> startsWith trimmedLine (js ''*''))
               (enumerate 0 ls))
         else found)"

text \<open>
  For stating what the scan does: a line without braces; a line whose braces the scan
  counts; and well-formed braces, where \<open>nest k cs\<close> is the number of braces left open
  after the characters \<open>cs\<close> when \<open>k\<close> were open before, and \<open>None\<close> when \<open>cs\<close> closes a
  brace that was not opened. \<open>nestLines\<close> goes through lines.
\<close>

definition braceFree :: "jstring \<Rightarrow> bool" where
  "braceFree line = (0x7B \<notin> set line \<and> 0x7D \<notin> set line)"

definition countsBraces :: "jstring \<Rightarrow> bool" where
  "countsBraces line =
     (trim line \<noteq> [] \<and> \<not> startsWith (trim line) (js ''//'') \<and>
      \<not> startsWith (trim line) (js ''/*'') \<and> \<not> startsWith (trim line) (js ''*''))"

fun nest :: "nat \<Rightarrow> jstring \<Rightarrow> nat option" where
  "nest k [] = Some k"
| "nest k (c # cs) =
     (if c = 0x7B then nest (Suc k) cs
      else if c = 0x7D then (case k of 0 \<Rightarrow> None | Suc j \<Rightarrow> nest j cs)
      else nest k cs)"

fun nestLines :: "nat \<Rightarrow> jstring list \<Rightarrow> nat option" where
  "nestLines k [] = Some k"
| "nestLines k (line # ls) = (case nest k line of None \<Rightarrow> None | Some j \<Rightarrow> nestLines j ls)"

text \<open>
  Documents for concrete runs: a function with an \<open>if\<close> block and a comment that holds a
  brace, between a comment and a call; and a Python file of four lines without braces.
\<close>

definition functionDocument :: document where
  "functionDocument =
     \<lparr>uri = js ''file:///f.js'', languageId = js ''javascript'',
      lines =
        [js ''// helper'',
         js ''function f(a) {'',
         js ''  if (a) {'',
         js ''    // not a block }'',
         js ''    return 1;'',
         js ''  }'',
         js ''  return 2;'',
         js ''}'',
         js ''f(0);'']\<rparr>"

definition flatDocument :: document where
  "flatDocument =
     \<lparr>uri = js ''file:///flat.py'', languageId = js ''python'',
      lines = [js ''x = 1'', js ''# note'', js '''', js ''print(x)'']\<rparr>"


section \<open>Facts about \<open>interpretLines\<close>\<close>

lemma foldl_set_all:
  "foldl (\<lambda>result index. result(int index \<mapsto> v)) m [0 ..< n] i =
     (if 0 \<le> i \<and> i < int n then Some v else m i)"
  by (induction n) auto

lemma errorResult_apply:
  "errorResult codeLines msg i =
     (if 0 \<le> i \<and> i < int (length codeLines) then Some (js ''Error: '' @ catchMessage msg)
      else None)"
  by (simp add: errorResult_def foldl_set_all)

lemma collect_in_range_gen:
  "\<forall>item \<in> set items. 1 \<le> lineNumber item \<and> lineNumber item \<le> int n \<Longrightarrow>
   foldl (\<lambda>result item.
            (let index = lineNumber item - 1 in
             if index \<ge> 0 \<and> index < int n then result(index \<mapsto> explanation item)
             else result)) m items =
   foldl (\<lambda>result item. result(lineNumber item - 1 \<mapsto> explanation item)) m items"
  by (induction items arbitrary: m) (auto simp: Let_def)

lemma collect_in_range:
  "\<forall>item \<in> set items. 1 \<le> lineNumber item \<and> lineNumber item \<le> int n \<Longrightarrow>
   collectExplanations n items = replayCached items"
  unfolding collectExplanations_def replayCached_def by (rule collect_in_range_gen)

lemma parsePayload_outer_error:
  "P text = Inr outer \<Longrightarrow> error outer = Some e \<Longrightarrow> e \<noteq> [] \<Longrightarrow>
   parsePayload P text = Inl (js ''Server error: '' @ e)"
  by (simp add: parsePayload_def)

lemma parsePayload_nested_error:
  "P text = Inr outer \<Longrightarrow> \<not> truthy (error outer) \<Longrightarrow> body outer = Some b \<Longrightarrow> b \<noteq> [] \<Longrightarrow>
   P b = Inr inner \<Longrightarrow> error inner = Some e \<Longrightarrow> e \<noteq> [] \<Longrightarrow>
   parsePayload P text = Inl (js ''Server error: '' @ e)"
  by (simp add: parsePayload_def)

lemma parsePayload_unwrap:
  "P text = Inr outer \<Longrightarrow> \<not> truthy (error outer) \<Longrightarrow> body outer = Some b \<Longrightarrow> b \<noteq> [] \<Longrightarrow>
   P b = Inr inner \<Longrightarrow> \<not> truthy (body inner) \<Longrightarrow>
   parsePayload P text = parsePayload P b"
  by (simp add: parsePayload_def)

lemma interpretLines_thrown:
  "cachedExplanations P cache (cacheKeyOf codeLines language) = None \<Longrightarrow>
   requestPayload P fetch language codeLines = Inl msg \<Longrightarrow>
   interpretLines P S fetch language cache codeLines =
     \<lparr>o_result = errorResult codeLines msg, o_cache = cache, o_requests = 1, o_failed = True\<rparr>"
  by (simp add: interpretLines_def)

text \<open>
  C1, as the code has it. A response that is \<open>ok\<close>, has no non-empty \<open>error\<close> and carries a
  non-empty \<open>body\<close> holding the JSON text of a payload that has no non-empty \<open>body\<close> of its
  own is unwrapped by one level: the call ends exactly as it does when the service sends
  the nested text itself. A non-empty \<open>error\<close> at the top or in the nested payload fails
  the whole batch with the message \<open>Server error:\<close> followed by the error. (The tests are
  for truthiness, so an \<open>error\<close> that is the empty string is not an error.)
\<close>

theorem body_unwrapped_one_level:
  "(P t = Inr outer \<and> \<not> truthy (error outer) \<and> body outer = Some b \<and> b \<noteq> [] \<and>
    P b = Inr inner \<and> \<not> truthy (body inner) \<longrightarrow>
      interpretLines P S (respond (r\<lparr>ok := True, responseText := t\<rparr>)) language cache codeLines =
      interpretLines P S (respond (r\<lparr>ok := True, responseText := b\<rparr>)) language cache codeLines) \<and>
   (cachedExplanations P cache (cacheKeyOf codeLines language) = None \<and>
    P t = Inr outer \<and> error outer = Some e \<and> e \<noteq> [] \<longrightarrow>
      interpretLines P S (respond (r\<lparr>ok := True, responseText := t\<rparr>)) language cache codeLines =
        \<lparr>o_result = errorResult codeLines (js ''Server error: '' @ e), o_cache = cache,
         o_requests = 1, o_failed = True\<rparr>) \<and>
   (cachedExplanations P cache (cacheKeyOf codeLines language) = None \<and>
    P t = Inr outer \<and> \<not> truthy (error outer) \<and> body outer = Some b \<and> b \<noteq> [] \<and>
    P b = Inr inner \<and> error inner = Some e \<and> e \<noteq> [] \<longrightarrow>
      interpretLines P S (respond (r\<lparr>ok := True, responseText := t\<rparr>)) language cache codeLines =
        \<lparr>o_result = errorResult codeLines (js ''Server error: '' @ e), o_cache = cache,
         o_requests = 1, o_failed = True\<rparr>)"
proof (intro conjI impI)
  assume h: "P t = Inr outer \<and> \<not> truthy (error outer) \<and> body outer = Some b \<and> b \<noteq> [] \<and>
    P b = Inr inner \<and> \<not> truthy (body inner)"
  then have "parsePayload P t = parsePayload P b"
    by (simp add: parsePayload_unwrap)
  then have eq:
    "requestPayload P (respond (r\<lparr>ok := True, responseText := t\<rparr>)) language codeLines =
     requestPayload P (respond (r\<lparr>ok := True, responseText := b\<rparr>)) language codeLines"
    by (simp add: requestPayload_def respond_def)
  show "interpretLines P S (respond (r\<lparr>ok := True, responseText := t\<rparr>)) language cache codeLines =
      interpretLines P S (respond (r\<lparr>ok := True, responseText := b\<rparr>)) language cache codeLines"
    by (simp only: interpretLines_def eq)
next
  assume h: "cachedExplanations P cache (cacheKeyOf codeLines language) = None \<and>
    P t = Inr outer \<and> error outer = Some e \<and> e \<noteq> []"
  then have
    "requestPayload P (respond (r\<lparr>ok := True, responseText := t\<rparr>)) language codeLines =
     Inl (js ''Server error: '' @ e)"
    by (simp add: requestPayload_def respond_def parsePayload_outer_error)
  with h show
    "interpretLines P S (respond (r\<lparr>ok := True, responseText := t\<rparr>)) language cache codeLines =
       \<lparr>o_result = errorResult codeLines (js ''Server error: '' @ e), o_cache = cache,
        o_requests = 1, o_failed = True\<rparr>"
    by (simp add: interpretLines_thrown)
next
  assume h: "cachedExplanations P cache (cacheKeyOf codeLines language) = None \<and>
    P t = Inr outer \<and> \<not> truthy (error outer) \<and> body outer = Some b \<and> b \<noteq> [] \<and>
    P b = Inr inner \<and> error inner = Some e \<and> e \<noteq> []"
  then have "parsePayload P t = Inl (js ''Server error: '' @ e)"
    using parsePayload_nested_error [of P t outer b inner e] by simp
  then have
    "requestPayload P (respond (r\<lparr>ok := True, responseText := t\<rparr>)) language codeLines =
     Inl (js ''Server error: '' @ e)"
    by (simp add: requestPayload_def respond_def)
  with h show
    "interpretLines P S (respond (r\<lparr>ok := True, responseText := t\<rparr>)) language cache codeLines =
       \<lparr>o_result = errorResult codeLines (js ''Server error: '' @ e), o_cache = cache,
        o_requests = 1, o_failed = True\<rparr>"
    by (simp add: interpretLines_thrown)
qed

text \<open>
  The theorem at the example of the specification: the wrapped answer and the flat answer
  end alike, with the explanation at index 0, and an \<open>error\<close> at either level fails the
  batch.
\<close>

theorem body_unwrapped_one_level_witness:
  "interpretLines (tableParse demoTable) (tableStringify demoTable)
       (respond (okResponse wrappedText)) (js ''English'') noCache demoLines =
     interpretLines (tableParse demoTable) (tableStringify demoTable)
       (respond (okResponse flatText)) (js ''English'') noCache demoLines \<and>
   o_result (interpretLines (tableParse demoTable) (tableStringify demoTable)
       (respond (okResponse wrappedText)) (js ''English'') noCache demoLines) 0 =
     Some (js ''Declares a constant x with value 10'') \<and>
   o_failed (interpretLines (tableParse demoTable) (tableStringify demoTable)
       (respond (okResponse errorText)) (js ''English'') noCache demoLines) \<and>
   o_failed (interpretLines (tableParse demoTable) (tableStringify demoTable)
       (respond (okResponse wrappedErrorText)) (js ''English'') noCache demoLines)"
proof -
  let ?P = "tableParse demoTable" and ?S = "tableStringify demoTable"
  have miss: "cachedExplanations ?P noCache (cacheKeyOf demoLines (js ''English'')) = None"
    by (simp add: cachedExplanations_def noCache_def)
  have w: "?P wrappedText = Inr (emptyPayload\<lparr>body := Some flatText\<rparr>)"
    by code_simp
  have f: "?P flatText = Inr flatPayload"
    by code_simp
  have e: "?P errorText = Inr (emptyPayload\<lparr>error := Some (js ''rate limited'')\<rparr>)"
    by code_simp
  have we: "?P wrappedErrorText = Inr (emptyPayload\<lparr>body := Some errorText\<rparr>)"
    by code_simp
  have ne: "flatText \<noteq> []" "errorText \<noteq> []" "js ''rate limited'' \<noteq> []"
    by (simp_all add: flatText_def errorText_def js_def)
  have r: "okResponse t = (okResponse t)\<lparr>ok := True, responseText := t\<rparr>" for t
    by (simp add: okResponse_def)
  note unwrap = body_unwrapped_one_level [THEN conjunct1, rule_format]
  note outer = body_unwrapped_one_level [THEN conjunct2, THEN conjunct1, rule_format]
  note nested = body_unwrapped_one_level [THEN conjunct2, THEN conjunct2, rule_format]
  have 1: "interpretLines ?P ?S (respond (okResponse wrappedText)) (js ''English'') noCache demoLines =
     interpretLines ?P ?S (respond (okResponse flatText)) (js ''English'') noCache demoLines"
    using unwrap [where P = ?P and t = wrappedText and b = flatText and inner = flatPayload
        and outer = "emptyPayload\<lparr>body := Some flatText\<rparr>" and S = ?S
        and r = "okResponse wrappedText" and language = "js ''English''" and cache = noCache
        and codeLines = demoLines]
      w f ne
    by (simp add: emptyPayload_def flatPayload_def okResponse_def)
  have 2: "o_result (interpretLines ?P ?S (respond (okResponse wrappedText)) (js ''English'')
      noCache demoLines) 0 = Some (js ''Declares a constant x with value 10'')"
    by code_simp
  have 3: "o_failed (interpretLines ?P ?S (respond (okResponse errorText)) (js ''English'')
      noCache demoLines)"
    using outer [where P = ?P and t = errorText and e = "js ''rate limited''"
        and outer = "emptyPayload\<lparr>error := Some (js ''rate limited'')\<rparr>" and S = ?S
        and r = "okResponse errorText" and language = "js ''English''" and cache = noCache
        and codeLines = demoLines]
      miss e ne
    by (simp add: emptyPayload_def okResponse_def)
  have 4: "o_failed (interpretLines ?P ?S (respond (okResponse wrappedErrorText)) (js ''English'')
      noCache demoLines)"
    using nested [where P = ?P and t = wrappedErrorText and b = errorText
        and e = "js ''rate limited''" and outer = "emptyPayload\<lparr>body := Some errorText\<rparr>"
        and inner = "emptyPayload\<lparr>error := Some (js ''rate limited'')\<rparr>" and S = ?S
        and r = "okResponse wrappedErrorText" and language = "js ''English''" and cache = noCache
        and codeLines = demoLines]
      miss we e ne
    by (simp add: emptyPayload_def okResponse_def)
  from 1 2 3 4 show ?thesis by simp
qed

text \<open>
  The claim as it is worded fails where the \<open>error\<close> property is present and empty: the
  batch succeeds.
\<close>

theorem empty_error_does_not_fail:
  "\<not> o_failed (interpretLines (tableParse demoTable) (tableStringify demoTable)
       (respond (okResponse emptyErrorText)) (js ''English'') noCache demoLines) \<and>
   o_result (interpretLines (tableParse demoTable) (tableStringify demoTable)
       (respond (okResponse emptyErrorText)) (js ''English'') noCache demoLines) 0 =
     Some (js ''Declares a constant x with value 10'')"
  by code_simp

lemma cached_hit_outcome:
  "cachedExplanations P cache (cacheKeyOf codeLines language) = Some items \<Longrightarrow>
   interpretLines P S fetch language cache codeLines =
     \<lparr>o_result = replayCached items, o_cache = cache, o_requests = 0, o_failed = False\<rparr>"
  by (simp add: interpretLines_def)

lemma failed_result:
  "o_failed (interpretLines P S fetch language cache codeLines) \<Longrightarrow>
   \<exists>msg. o_result (interpretLines P S fetch language cache codeLines) = errorResult codeLines msg"
  by (auto simp: interpretLines_def Let_def split: option.splits sum.splits)

text \<open>
  C3, as the code has it. A call that fails gives every line of the batch one and the same
  string, \<open>Error:\<close> followed by a message. When the service answers HTTP 500 with the
  body \<open>{"error":"rate limited"}\<close>, that string is \<open>Error: rate limited\<close>: the message of
  a response that is not \<open>ok\<close> is the \<open>error\<close> property as it is, with no prefix.
\<close>

theorem batch_failure_one_error_string:
  "(o_failed (interpretLines P S fetch language cache codeLines) \<longrightarrow>
      (\<exists>msg. \<forall>i. 0 \<le> i \<and> i < int (length codeLines) \<longrightarrow>
         o_result (interpretLines P S fetch language cache codeLines) i = Some (js ''Error: '' @ msg))) \<and>
   (cachedExplanations P cache (cacheKeyOf codeLines language) = None \<and>
    fetch codeLines language = Inr r \<and> \<not> ok r \<and> status r = 500 \<and> responseText r = errorText \<and>
    P errorText = Inr d \<and> error d = Some (js ''rate limited'') \<longrightarrow>
      o_failed (interpretLines P S fetch language cache codeLines) \<and>
      (\<forall>i. 0 \<le> i \<and> i < int (length codeLines) \<longrightarrow>
         o_result (interpretLines P S fetch language cache codeLines) i =
           Some (js ''Error: rate limited'')))"
proof (rule conjI; rule impI)
  assume "o_failed (interpretLines P S fetch language cache codeLines)"
  then obtain msg where
    "o_result (interpretLines P S fetch language cache codeLines) = errorResult codeLines msg"
    using failed_result by blast
  then have "\<forall>i. 0 \<le> i \<and> i < int (length codeLines) \<longrightarrow>
      o_result (interpretLines P S fetch language cache codeLines) i =
        Some (js ''Error: '' @ catchMessage msg)"
    by (simp add: errorResult_apply)
  then show "\<exists>msg. \<forall>i. 0 \<le> i \<and> i < int (length codeLines) \<longrightarrow>
      o_result (interpretLines P S fetch language cache codeLines) i = Some (js ''Error: '' @ msg)"
    by blast
next
  assume h: "cachedExplanations P cache (cacheKeyOf codeLines language) = None \<and>
    fetch codeLines language = Inr r \<and> \<not> ok r \<and> status r = 500 \<and> responseText r = errorText \<and>
    P errorText = Inr d \<and> error d = Some (js ''rate limited'')"
  have ne: "js ''rate limited'' \<noteq> []" by (simp add: js_def)
  from h have "httpErrorMessage P r = js ''rate limited''"
    using ne by (simp add: httpErrorMessage_def)
  with h have rp: "requestPayload P fetch language codeLines = Inl (js ''rate limited'')"
    by (simp add: requestPayload_def)
  have cm: "catchMessage (js ''rate limited'') = js ''rate limited''"
    by code_simp
  have out: "interpretLines P S fetch language cache codeLines =
     \<lparr>o_result = errorResult codeLines (js ''rate limited''), o_cache = cache,
      o_requests = 1, o_failed = True\<rparr>"
    using h rp by (simp add: interpretLines_thrown)
  show "o_failed (interpretLines P S fetch language cache codeLines) \<and>
      (\<forall>i. 0 \<le> i \<and> i < int (length codeLines) \<longrightarrow>
         o_result (interpretLines P S fetch language cache codeLines) i =
           Some (js ''Error: rate limited''))"
    by (simp add: out errorResult_apply cm) (simp add: js_def)
qed

text \<open>The theorem at a request of one line, answered with HTTP 500 and that body.\<close>

theorem batch_failure_one_error_string_witness:
  "o_failed (interpretLines (tableParse demoTable) (tableStringify demoTable)
      (respond rateLimitedResponse) (js ''English'') noCache demoLines) \<and>
   o_result (interpretLines (tableParse demoTable) (tableStringify demoTable)
      (respond rateLimitedResponse) (js ''English'') noCache demoLines) 0 =
     Some (js ''Error: rate limited'')"
proof -
  let ?P = "tableParse demoTable" and ?S = "tableStringify demoTable"
  have miss: "cachedExplanations ?P noCache (cacheKeyOf demoLines (js ''English'')) = None"
    by (simp add: cachedExplanations_def noCache_def)
  have e: "?P errorText = Inr (emptyPayload\<lparr>error := Some (js ''rate limited'')\<rparr>)"
    by code_simp
  have len: "(0::int) < int (length demoLines)" by (simp add: demoLines_def)
  note ex = batch_failure_one_error_string [THEN conjunct2, rule_format]
  have "o_failed (interpretLines ?P ?S (respond rateLimitedResponse) (js ''English'') noCache demoLines) \<and>
      (\<forall>i. 0 \<le> i \<and> i < int (length demoLines) \<longrightarrow>
         o_result (interpretLines ?P ?S (respond rateLimitedResponse) (js ''English'') noCache demoLines) i =
           Some (js ''Error: rate limited''))"
    using ex [where P = ?P and cache = noCache and codeLines = demoLines
        and language = "js ''English''" and fetch = "respond rateLimitedResponse"
        and r = rateLimitedResponse and S = ?S
        and d = "emptyPayload\<lparr>error := Some (js ''rate limited'')\<rparr>"]
      miss e
    by (simp add: respond_def rateLimitedResponse_def emptyPayload_def)
  with len show ?thesis by simp
qed

text \<open>
  The string of the claim, with \<open>Server error:\<close> in it, is not what a line gets for the
  HTTP 500 answer.
\<close>

theorem http_500_has_no_server_error_prefix:
  "o_result (interpretLines (tableParse demoTable) (tableStringify demoTable)
      (respond rateLimitedResponse) (js ''English'') noCache demoLines) 0 \<noteq>
     Some (js ''Error: Server error: rate limited'')"
  by code_simp


text \<open>
  C9. \<open>interpretLines\<close> is a total function of its inputs: every error thrown in its
  \<open>try\<close> block is a value that the \<open>catch\<close> block turns into the result. When the cache
  does not answer, each way of failing (the network rejects, the status is not 2xx, the
  text is not JSON, the payload or the unwrapped \<open>body\<close> has a non-empty \<open>error\<close>, the
  \<open>body\<close> is not JSON, there is no \<open>explanations\<close> array) resolves with \<open>errorResult\<close>
  of the thrown message, which maps every index from 0 up to the number of lines to
  \<open>Error:\<close> followed by a message, and no other index.
\<close>

theorem interpretLines_resolves_with_errors:
  "(o_failed (interpretLines P S fetch language cache codeLines) \<longrightarrow>
      (\<exists>msg. o_result (interpretLines P S fetch language cache codeLines) =
         errorResult codeLines msg)) \<and>
   (cachedExplanations P cache (cacheKeyOf codeLines language) = None \<longrightarrow>
   (fetch codeLines language = Inl m \<longrightarrow>
      interpretLines P S fetch language cache codeLines =
        \<lparr>o_result = errorResult codeLines m, o_cache = cache, o_requests = 1, o_failed = True\<rparr>) \<and>
   (fetch codeLines language = Inr r \<and> \<not> ok r \<longrightarrow>
      interpretLines P S fetch language cache codeLines =
        \<lparr>o_result = errorResult codeLines (httpErrorMessage P r), o_cache = cache,
         o_requests = 1, o_failed = True\<rparr>) \<and>
   (fetch codeLines language = Inr r \<and> ok r \<and> P (responseText r) = Inl se \<longrightarrow>
      interpretLines P S fetch language cache codeLines =
        \<lparr>o_result = errorResult codeLines
           (js ''Invalid response format: '' @ substring0 (responseText r) 100),
         o_cache = cache, o_requests = 1, o_failed = True\<rparr>) \<and>
   (fetch codeLines language = Inr r \<and> ok r \<and> P (responseText r) = Inr d \<and>
    error d = Some e \<and> e \<noteq> [] \<longrightarrow>
      interpretLines P S fetch language cache codeLines =
        \<lparr>o_result = errorResult codeLines (js ''Server error: '' @ e), o_cache = cache,
         o_requests = 1, o_failed = True\<rparr>) \<and>
   (fetch codeLines language = Inr r \<and> ok r \<and> P (responseText r) = Inr d \<and>
    \<not> truthy (error d) \<and> body d = Some b \<and> b \<noteq> [] \<and> P b = Inr d' \<and>
    error d' = Some e \<and> e \<noteq> [] \<longrightarrow>
      interpretLines P S fetch language cache codeLines =
        \<lparr>o_result = errorResult codeLines (js ''Server error: '' @ e), o_cache = cache,
         o_requests = 1, o_failed = True\<rparr>) \<and>
   (fetch codeLines language = Inr r \<and> ok r \<and> P (responseText r) = Inr d \<and>
    \<not> truthy (error d) \<and> body d = Some b \<and> b \<noteq> [] \<and> P b = Inl se \<longrightarrow>
      interpretLines P S fetch language cache codeLines =
        \<lparr>o_result = errorResult codeLines
           (if se \<noteq> [] \<and> includes_str se (js ''Server error'') then se
            else js ''Failed to parse response body''),
         o_cache = cache, o_requests = 1, o_failed = True\<rparr>) \<and>
   (fetch codeLines language = Inr r \<and> ok r \<and> parsePayload P (responseText r) = Inr d \<and>
    explanations d = None \<longrightarrow>
      interpretLines P S fetch language cache codeLines =
        \<lparr>o_result = errorResult codeLines
           (js ''Invalid response format: explanations array not found''),
         o_cache = cache, o_requests = 1, o_failed = True\<rparr>)) \<and>
   (\<forall>msg i. errorResult codeLines msg i =
      (if 0 \<le> i \<and> i < int (length codeLines) then Some (js ''Error: '' @ catchMessage msg)
       else None))"
proof -
  have failed: "o_failed (interpretLines P S fetch language cache codeLines) \<longrightarrow>
      (\<exists>msg. o_result (interpretLines P S fetch language cache codeLines) =
         errorResult codeLines msg)"
    using failed_result by blast
  have thrown: "requestPayload P fetch language codeLines = Inl msg \<Longrightarrow>
      interpretLines P S fetch language cache codeLines =
        \<lparr>o_result = errorResult codeLines msg, o_cache = cache, o_requests = 1, o_failed = True\<rparr>"
    if "cachedExplanations P cache (cacheKeyOf codeLines language) = None" for msg
    using that by (rule interpretLines_thrown)
  have missing: "interpretLines P S fetch language cache codeLines =
        \<lparr>o_result = errorResult codeLines
           (js ''Invalid response format: explanations array not found''),
         o_cache = cache, o_requests = 1, o_failed = True\<rparr>"
    if "cachedExplanations P cache (cacheKeyOf codeLines language) = None"
      "requestPayload P fetch language codeLines = Inr d" "explanations d = None"
    using that by (simp add: interpretLines_def)
  show ?thesis
  proof (intro conjI impI allI)
    show "\<exists>msg. o_result (interpretLines P S fetch language cache codeLines) =
        errorResult codeLines msg"
      if "o_failed (interpretLines P S fetch language cache codeLines)"
      using that failed by blast
  qed (simp_all add: thrown missing requestPayload_def parsePayload_def errorResult_apply)
qed

text \<open>
  The theorem at a request of one line, in each way of failing: the network is down, the
  answer is not JSON, the answer has no \<open>explanations\<close> (index 0 holds the error, index 1
  nothing), the status is 500 with a text that is not JSON, the answer or its \<open>body\<close>
  carries an \<open>error\<close>, the \<open>body\<close> is not JSON.
\<close>

theorem interpretLines_resolves_with_errors_witness:
  "o_result (interpretLines (tableParse demoTable) (tableStringify demoTable) offline
      (js ''English'') noCache demoLines) 0 =
     Some (js ''Error: Network error. Please check your internet connection and try again.'') \<and>
   o_result (interpretLines (tableParse demoTable) (tableStringify demoTable)
      (respond (okResponse (js ''<html>''))) (js ''English'') noCache demoLines) 0 =
     Some (js ''Error: Invalid response format: <html>'') \<and>
   o_result (interpretLines (tableParse demoTable) (tableStringify demoTable)
      (respond (okResponse (js ''{}''))) (js ''English'') noCache demoLines) 0 =
     Some (js ''Error: Invalid response format: explanations array not found'') \<and>
   o_result (interpretLines (tableParse demoTable) (tableStringify demoTable)
      (respond (okResponse (js ''{}''))) (js ''English'') noCache demoLines) 1 = None \<and>
   o_result (interpretLines (tableParse demoTable) (tableStringify demoTable)
      (respond (rateLimitedResponse\<lparr>responseText := js ''Bad Gateway''\<rparr>)) (js ''English'')
      noCache demoLines) 0 = Some (js ''Error: Bad Gateway'') \<and>
   o_result (interpretLines (tableParse demoTable) (tableStringify demoTable)
      (respond (okResponse errorText)) (js ''English'') noCache demoLines) 0 =
     Some (js ''Error: Server error: rate limited'') \<and>
   o_result (interpretLines (tableParse demoTable) (tableStringify demoTable)
      (respond (okResponse wrappedErrorText)) (js ''English'') noCache demoLines) 0 =
     Some (js ''Error: Server error: rate limited'') \<and>
   o_result (interpretLines (tableParse demoTable) (tableStringify demoTable)
      (respond (okResponse badBodyText)) (js ''English'') noCache demoLines) 0 =
     Some (js ''Error: Failed to parse response body'')"
proof -
  let ?P = "tableParse demoTable" and ?S = "tableStringify demoTable"
  have miss: "cachedExplanations ?P noCache (cacheKeyOf demoLines (js ''English'')) = None"
    by (simp add: cachedExplanations_def noCache_def)
  note modes = interpretLines_resolves_with_errors [THEN conjunct2, THEN conjunct1, THEN mp, OF miss]
  note at_index = interpretLines_resolves_with_errors [THEN conjunct2, THEN conjunct2, rule_format]
  have len: "length demoLines = 1" by (simp add: demoLines_def)
  have 1: "o_result (interpretLines ?P ?S offline (js ''English'') noCache demoLines) 0 =
     Some (js ''Error: Network error. Please check your internet connection and try again.'')"
  proof -
    have "interpretLines ?P ?S offline (js ''English'') noCache demoLines =
        \<lparr>o_result = errorResult demoLines (js ''Failed to fetch''), o_cache = noCache,
         o_requests = 1, o_failed = True\<rparr>"
      using modes [THEN conjunct1, rule_format,
          where fetch = offline and m = "js ''Failed to fetch''" and S = ?S]
      by (simp add: offline_def)
    moreover have "catchMessage (js ''Failed to fetch'') =
        js ''Network error. Please check your internet connection and try again.''"
      by code_simp
    ultimately show ?thesis by (simp add: at_index len) (simp add: js_def)
  qed
  have 2: "o_result (interpretLines ?P ?S (respond (okResponse (js ''<html>''))) (js ''English'')
      noCache demoLines) 0 = Some (js ''Error: Invalid response format: <html>'')"
  proof -
    have p: "?P (js ''<html>'') = Inl (js ''Unexpected token'')" by code_simp
    have "interpretLines ?P ?S (respond (okResponse (js ''<html>''))) (js ''English'') noCache demoLines =
        \<lparr>o_result = errorResult demoLines
           (js ''Invalid response format: '' @ substring0 (js ''<html>'') 100),
         o_cache = noCache, o_requests = 1, o_failed = True\<rparr>"
      using modes [THEN conjunct2, THEN conjunct2, THEN conjunct1, rule_format,
          where fetch = "respond (okResponse (js ''<html>''))" and r = "okResponse (js ''<html>'')"
            and se = "js ''Unexpected token''" and S = ?S]
        p
      by (simp add: respond_def okResponse_def)
    moreover have "catchMessage (js ''Invalid response format: '' @ substring0 (js ''<html>'') 100) =
        js ''Invalid response format: <html>''"
      by code_simp
    ultimately show ?thesis by (simp add: at_index len) (simp add: js_def)
  qed
  have out3: "interpretLines ?P ?S (respond (okResponse (js ''{}''))) (js ''English'') noCache demoLines =
        \<lparr>o_result = errorResult demoLines
           (js ''Invalid response format: explanations array not found''),
         o_cache = noCache, o_requests = 1, o_failed = True\<rparr>"
  proof -
    have p: "parsePayload ?P (js ''{}'') = Inr emptyPayload" by code_simp
    show ?thesis
      using modes [THEN conjunct2, THEN conjunct2, THEN conjunct2, THEN conjunct2,
          THEN conjunct2, THEN conjunct2, rule_format,
          where fetch = "respond (okResponse (js ''{}''))" and r = "okResponse (js ''{}'')"
            and d = emptyPayload and S = ?S]
        p
      by (simp add: respond_def okResponse_def emptyPayload_def)
  qed
  have cm3: "catchMessage (js ''Invalid response format: explanations array not found'') =
      js ''Invalid response format: explanations array not found''"
    by code_simp
  have 3: "o_result (interpretLines ?P ?S (respond (okResponse (js ''{}''))) (js ''English'')
      noCache demoLines) 0 = Some (js ''Error: Invalid response format: explanations array not found'')"
    by (simp add: out3 at_index len cm3) (simp add: js_def)
  have 4: "o_result (interpretLines ?P ?S (respond (okResponse (js ''{}''))) (js ''English'')
      noCache demoLines) 1 = None"
    by (simp add: out3 at_index len)
  have 5: "o_result (interpretLines ?P ?S
      (respond (rateLimitedResponse\<lparr>responseText := js ''Bad Gateway''\<rparr>)) (js ''English'')
      noCache demoLines) 0 = Some (js ''Error: Bad Gateway'')"
  proof -
    let ?r = "rateLimitedResponse\<lparr>responseText := js ''Bad Gateway''\<rparr>"
    have nok: "\<not> ok ?r" by (simp add: rateLimitedResponse_def)
    have "interpretLines ?P ?S (respond ?r) (js ''English'') noCache demoLines =
        \<lparr>o_result = errorResult demoLines (httpErrorMessage ?P ?r), o_cache = noCache,
         o_requests = 1, o_failed = True\<rparr>"
      using modes [THEN conjunct2, THEN conjunct1, rule_format,
          where fetch = "respond ?r" and r = ?r and S = ?S]
        nok
      by (simp add: respond_def)
    moreover have "catchMessage (httpErrorMessage ?P ?r) = js ''Bad Gateway''"
      by code_simp
    ultimately show ?thesis by (simp add: at_index len) (simp add: js_def)
  qed
  have cme: "catchMessage (js ''Server error: '' @ js ''rate limited'') =
      js ''Server error: rate limited''"
    by code_simp
  have pe: "?P errorText = Inr (emptyPayload\<lparr>error := Some (js ''rate limited'')\<rparr>)"
    and pw: "?P wrappedErrorText = Inr (emptyPayload\<lparr>body := Some errorText\<rparr>)"
    and pb: "?P badBodyText = Inr (emptyPayload\<lparr>body := Some (js ''oops'')\<rparr>)"
    and po: "?P (js ''oops'') = Inl (js ''Unexpected token'')"
    by code_simp+
  have ne: "js ''rate limited'' \<noteq> []" "errorText \<noteq> []" "js ''oops'' \<noteq> []"
    by (simp_all add: js_def errorText_def)
  have 6: "o_result (interpretLines ?P ?S (respond (okResponse errorText)) (js ''English'')
      noCache demoLines) 0 = Some (js ''Error: Server error: rate limited'')"
  proof -
    have "interpretLines ?P ?S (respond (okResponse errorText)) (js ''English'') noCache demoLines =
        \<lparr>o_result = errorResult demoLines (js ''Server error: '' @ js ''rate limited''),
         o_cache = noCache, o_requests = 1, o_failed = True\<rparr>"
      using modes [THEN conjunct2, THEN conjunct2, THEN conjunct2, THEN conjunct1, rule_format,
          where fetch = "respond (okResponse errorText)" and r = "okResponse errorText"
            and d = "emptyPayload\<lparr>error := Some (js ''rate limited'')\<rparr>"
            and e = "js ''rate limited''" and S = ?S]
        pe ne
      by (simp add: respond_def okResponse_def emptyPayload_def)
    then show ?thesis by (simp add: at_index len cme) (simp add: js_def)
  qed
  have 7: "o_result (interpretLines ?P ?S (respond (okResponse wrappedErrorText)) (js ''English'')
      noCache demoLines) 0 = Some (js ''Error: Server error: rate limited'')"
  proof -
    have "interpretLines ?P ?S (respond (okResponse wrappedErrorText)) (js ''English'') noCache
        demoLines =
        \<lparr>o_result = errorResult demoLines (js ''Server error: '' @ js ''rate limited''),
         o_cache = noCache, o_requests = 1, o_failed = True\<rparr>"
      using modes [THEN conjunct2, THEN conjunct2, THEN conjunct2, THEN conjunct2,
          THEN conjunct1, rule_format,
          where fetch = "respond (okResponse wrappedErrorText)"
            and r = "okResponse wrappedErrorText"
            and d = "emptyPayload\<lparr>body := Some errorText\<rparr>" and b = errorText
            and d' = "emptyPayload\<lparr>error := Some (js ''rate limited'')\<rparr>"
            and e = "js ''rate limited''" and S = ?S]
        pe pw ne
      by (simp add: respond_def okResponse_def emptyPayload_def)
    then show ?thesis by (simp add: at_index len cme) (simp add: js_def)
  qed
  have 8: "o_result (interpretLines ?P ?S (respond (okResponse badBodyText)) (js ''English'')
      noCache demoLines) 0 = Some (js ''Error: Failed to parse response body'')"
  proof -
    have inc: "\<not> includes_str (js ''Unexpected token'') (js ''Server error'')"
      by code_simp
    have "interpretLines ?P ?S (respond (okResponse badBodyText)) (js ''English'') noCache
        demoLines =
        \<lparr>o_result = errorResult demoLines (js ''Failed to parse response body''),
         o_cache = noCache, o_requests = 1, o_failed = True\<rparr>"
      using modes [THEN conjunct2, THEN conjunct2, THEN conjunct2, THEN conjunct2,
          THEN conjunct2, THEN conjunct1, rule_format,
          where fetch = "respond (okResponse badBodyText)" and r = "okResponse badBodyText"
            and d = "emptyPayload\<lparr>body := Some (js ''oops'')\<rparr>" and b = "js ''oops''"
            and se = "js ''Unexpected token''" and S = ?S]
        pb po ne inc
      by (simp add: respond_def okResponse_def emptyPayload_def)
    moreover have "catchMessage (js ''Failed to parse response body'') =
        js ''Failed to parse response body''"
      by code_simp
    ultimately show ?thesis by (simp add: at_index len) (simp add: js_def)
  qed
  from 1 2 3 4 5 6 7 8 show ?thesis by simp
qed

lemma cachedExplanations_stored:
  "P (S data) = Inr data \<Longrightarrow> S data \<noteq> [] \<Longrightarrow>
   cachedExplanations P (cache(key \<mapsto> S data)) key = explanations data"
  by (simp add: cachedExplanations_def)

text \<open>
  C2, as the code has it. Take a first call that does not fail. If it went to the network,
  suppose the answer's line numbers all lie between 1 and the number of lines, and the text
  that \<open>JSON.stringify\<close> stores is non-empty and parses back to the stored payload. Then a
  second call with the same lines and language, on the cache the first call left, sends no
  request (whatever the network would answer), resolves with the same map and leaves the
  cache as it is.
\<close>

theorem second_call_served_from_cache:
  assumes ok1: "\<not> o_failed (interpretLines P S fetch1 language cache codeLines)"
    and roundtrip: "\<forall>data items.
        requestPayload P fetch1 language codeLines = Inr data \<and> explanations data = Some items \<longrightarrow>
        P (S data) = Inr data \<and> S data \<noteq> [] \<and>
        (\<forall>item \<in> set items. 1 \<le> lineNumber item \<and> lineNumber item \<le> int (length codeLines))"
  shows "o_requests (interpretLines P S fetch2 language
            (o_cache (interpretLines P S fetch1 language cache codeLines)) codeLines) = 0 \<and>
         o_result (interpretLines P S fetch2 language
            (o_cache (interpretLines P S fetch1 language cache codeLines)) codeLines) =
           o_result (interpretLines P S fetch1 language cache codeLines) \<and>
         o_cache (interpretLines P S fetch2 language
            (o_cache (interpretLines P S fetch1 language cache codeLines)) codeLines) =
           o_cache (interpretLines P S fetch1 language cache codeLines)"
proof (cases "cachedExplanations P cache (cacheKeyOf codeLines language)")
  case (Some items)
  then show ?thesis by (simp add: cached_hit_outcome)
next
  case None
  show ?thesis
  proof (cases "requestPayload P fetch1 language codeLines")
    case (Inl msg)
    with None ok1 show ?thesis by (simp add: interpretLines_thrown)
  next
    case (Inr data)
    show ?thesis
    proof (cases "explanations data")
      case n: None
      with None Inr ok1 show ?thesis by (simp add: interpretLines_def)
    next
      case (Some items)
      with Inr roundtrip have rt: "P (S data) = Inr data" "S data \<noteq> []"
        and inr: "\<forall>item \<in> set items. 1 \<le> lineNumber item \<and> lineNumber item \<le> int (length codeLines)"
        by blast+
      have out1: "interpretLines P S fetch1 language cache codeLines =
          \<lparr>o_result = collectExplanations (length codeLines) items,
           o_cache = cache(cacheKeyOf codeLines language \<mapsto> S data),
           o_requests = 1, o_failed = False\<rparr>"
        using None Inr Some by (simp add: interpretLines_def)
      have hit: "cachedExplanations P (cache(cacheKeyOf codeLines language \<mapsto> S data))
          (cacheKeyOf codeLines language) = Some items"
        using rt Some by (simp add: cachedExplanations_stored)
      show ?thesis
        using collect_in_range [OF inr] by (simp add: out1 cached_hit_outcome [OF hit])
    qed
  qed
qed


text \<open>
  The theorem at the example of the specification: the first call is answered by the
  service, the second is made while the network is down.
\<close>

theorem second_call_served_from_cache_witness:
  "o_requests (interpretLines (tableParse demoTable) (tableStringify demoTable) offline (js ''English'')
      (o_cache (interpretLines (tableParse demoTable) (tableStringify demoTable)
         (respond (okResponse flatText)) (js ''English'') noCache demoLines)) demoLines) = 0 \<and>
   o_result (interpretLines (tableParse demoTable) (tableStringify demoTable) offline (js ''English'')
      (o_cache (interpretLines (tableParse demoTable) (tableStringify demoTable)
         (respond (okResponse flatText)) (js ''English'') noCache demoLines)) demoLines) =
     o_result (interpretLines (tableParse demoTable) (tableStringify demoTable)
         (respond (okResponse flatText)) (js ''English'') noCache demoLines) \<and>
   o_requests (interpretLines (tableParse demoTable) (tableStringify demoTable)
         (respond (okResponse flatText)) (js ''English'') noCache demoLines) = 1 \<and>
   o_result (interpretLines (tableParse demoTable) (tableStringify demoTable)
         (respond (okResponse flatText)) (js ''English'') noCache demoLines) 0 =
     Some (js ''Declares a constant x with value 10'')"
proof -
  let ?P = "tableParse demoTable" and ?S = "tableStringify demoTable"
  let ?first = "interpretLines ?P ?S (respond (okResponse flatText)) (js ''English'') noCache demoLines"
  have ok1: "\<not> o_failed ?first"
    by code_simp
  have rp: "requestPayload ?P (respond (okResponse flatText)) (js ''English'') demoLines =
      Inr flatPayload"
    by code_simp
  have rt: "?P (?S flatPayload) = Inr flatPayload" "?S flatPayload \<noteq> []"
    by code_simp+
  have items: "explanations flatPayload =
      Some [\<lparr>lineNumber = 1, explanation = js ''Declares a constant x with value 10''\<rparr>]"
    by (simp add: flatPayload_def emptyPayload_def)
  have len: "length demoLines = 1" by (simp add: demoLines_def)
  have hyp: "\<forall>data items.
        requestPayload ?P (respond (okResponse flatText)) (js ''English'') demoLines = Inr data \<and>
        explanations data = Some items \<longrightarrow>
        ?P (?S data) = Inr data \<and> ?S data \<noteq> [] \<and>
        (\<forall>item \<in> set items. 1 \<le> lineNumber item \<and> lineNumber item \<le> int (length demoLines))"
    using rt items len by (auto simp: rp)
  have 1: "o_requests ?first = 1" by code_simp
  have 2: "o_result ?first 0 = Some (js ''Declares a constant x with value 10'')" by code_simp
  from second_call_served_from_cache [OF ok1 hyp, of offline] 1 2 show ?thesis by simp
qed

text \<open>
  The claim as it is worded fails when the first call fails: nothing is stored, and the
  second call sends a request of its own.
\<close>

theorem failed_call_is_not_cached:
  "o_requests (interpretLines (tableParse demoTable) (tableStringify demoTable) offline (js ''English'')
      (o_cache (interpretLines (tableParse demoTable) (tableStringify demoTable) offline
         (js ''English'') noCache demoLines)) demoLines) = 1"
  by code_simp


section \<open>Facts about the two extractors\<close>

lemma loop_stop:
  "\<not> (i < lineCount d \<and> i < 100) \<Longrightarrow>
   provideInlayHints_loop fetch language d i cache hints = (hints, cache)"
  by (subst provideInlayHints_loop.simps) auto

lemma loop_skip:
  "i < lineCount d \<Longrightarrow> i < 100 \<Longrightarrow> skippedByHints (trim (lines d ! i)) \<Longrightarrow>
   provideInlayHints_loop fetch language d i cache hints =
   provideInlayHints_loop fetch language d (Suc i) cache hints"
  by (subst provideInlayHints_loop.simps) simp

lemma loop_hit:
  "i < lineCount d \<Longrightarrow> i < 100 \<Longrightarrow> \<not> skippedByHints (trim (lines d ! i)) \<Longrightarrow>
   truthy (cache (hintCacheKey d i (trim (lines d ! i)) language)) \<Longrightarrow>
   provideInlayHints_loop fetch language d i cache hints =
   provideInlayHints_loop fetch language d (Suc i) cache
     (hints @ [\<lparr>position = (i, length (lines d ! i)),
                label = hintLabel (orElse (cache (hintCacheKey d i (trim (lines d ! i)) language)) [])\<rparr>])"
  by (subst provideInlayHints_loop.simps) (simp add: Let_def)

lemma loop_miss:
  "i < lineCount d \<Longrightarrow> i < 100 \<Longrightarrow> \<not> skippedByHints (trim (lines d ! i)) \<Longrightarrow>
   \<not> truthy (cache (hintCacheKey d i (trim (lines d ! i)) language)) \<Longrightarrow>
   provideInlayHints_loop fetch language d i cache hints =
   provideInlayHints_loop fetch language d (Suc i)
     (cache(hintCacheKey d i (trim (lines d ! i)) language \<mapsto>
        r_explanation (interpretLine fetch language (trim (lines d ! i)) (i + 1))))
     (hints @ [\<lparr>position = (i, length (lines d ! i)),
                label = hintLabel (r_explanation
                  (interpretLine fetch language (trim (lines d ! i)) (i + 1)))\<rparr>])"
  by (subst provideInlayHints_loop.simps) (simp add: Let_def)

text \<open>The lines that get a hint: those of the first 100 that the guard does not skip.\<close>

lemma loop_positions:
  "map (\<lambda>h. fst (position h)) (fst (provideInlayHints_loop fetch language d i cache hints)) =
     map (\<lambda>h. fst (position h)) hints @
     filter (\<lambda>j. \<not> skippedByHints (trim (lines d ! j))) [i ..< min (lineCount d) 100]"
proof (induction "min (lineCount d) 100 - i" arbitrary: i cache hints)
  case 0
  then have "\<not> (i < lineCount d \<and> i < 100)" by linarith
  with 0 show ?case by (simp add: loop_stop)
next
  case (Suc k)
  then have lt: "i < lineCount d" "i < 100" by simp_all
  then have upt: "[i ..< min (lineCount d) 100] = i # [Suc i ..< min (lineCount d) 100]"
    by (simp add: upt_conv_Cons)
  have k: "k = min (lineCount d) 100 - Suc i" using Suc.hyps(2) by simp
  show ?case
  proof (cases "skippedByHints (trim (lines d ! i))")
    case True
    then show ?thesis using lt Suc.hyps(1) [OF k] by (simp add: loop_skip upt)
  next
    case s: False
    show ?thesis
    proof (cases "truthy (cache (hintCacheKey d i (trim (lines d ! i)) language))")
      case True
      then show ?thesis using lt s Suc.hyps(1) [OF k] by (simp add: loop_hit upt)
    next
      case False
      then show ?thesis using lt s Suc.hyps(1) [OF k] by (simp add: loop_miss upt)
    qed
  qed
qed

lemma hint_lines:
  "map (\<lambda>h. fst (position h)) (fst (provideInlayHints enabled fetch language d cache)) =
     (if enabled
      then filter (\<lambda>j. \<not> skippedByHints (trim (lines d ! j))) [0 ..< min (lineCount d) 100]
      else [])"
  by (simp add: provideInlayHints_def loop_positions)

lemma foldl_set_add:
  "distinct (acc @ xs) \<Longrightarrow> foldl set_add acc xs = acc @ xs"
  by (induction xs arbitrary: acc) (auto simp: set_add_def)

lemma selectedLinesOf_single:
  "selectedLinesOf [s] = [start_line s ..< Suc (end_line s)]"
  by (simp add: selectedLinesOf_def foldl_set_add)

lemma collectCodeLines_eq:
  "\<forall>n \<in> set ns. n < lineCount d \<Longrightarrow>
   collectCodeLines d ns acc =
     Some (acc @ map (\<lambda>n. (n, trim (lines d ! n)))
                   (filter (\<lambda>n. isCodeLine (trim (lines d ! n))) ns))"
  by (induction ns arbitrary: acc) (auto simp: lineAt_def Let_def)

text \<open>
  Selection mode keeps no line that is blank or starts with one of the six prefixes; the
  hint provider skips the blank lines and three of the prefixes.
\<close>

lemma isCodeLine_excludes:
  "isCodeLine t \<Longrightarrow>
   t \<noteq> [] \<and> \<not> startsWith t (js ''//'') \<and> \<not> startsWith t (js ''/*'') \<and>
   \<not> startsWith t (js ''*'') \<and> \<not> startsWith t (js ''#'') \<and> \<not> startsWith t (js ''--'') \<and>
   \<not> startsWith t [0x27]"
  by (simp add: isCodeLine_def)

lemma selection_units_are_code_lines:
  "collectCodeLines d ns acc = Some units \<Longrightarrow> (n, t) \<in> set units \<Longrightarrow>
   (n, t) \<in> set acc \<or> (n \<in> set ns \<and> lineAt d n \<noteq> None \<and> t = trim (lines d ! n) \<and> isCodeLine t)"
proof (induction ns arbitrary: acc)
  case Nil
  then show ?case by simp
next
  case (Cons m ms)
  show ?case
  proof (cases "lineAt d m")
    case None
    with Cons.prems show ?thesis by simp
  next
    case (Some ln)
    then have ln: "ln = lines d ! m" by (simp add: lineAt_def split: if_splits)
    show ?thesis
    proof (cases "isCodeLine (trim ln)")
      case True
      with Some Cons.prems have "collectCodeLines d ms (acc @ [(m, trim ln)]) = Some units"
        by (simp add: Let_def)
      from Cons.IH [OF this Cons.prems(2)] True Some ln show ?thesis by auto
    next
      case False
      with Some Cons.prems have "collectCodeLines d ms acc = Some units"
        by (simp add: Let_def)
      from Cons.IH [OF this Cons.prems(2)] show ?thesis by auto
    qed
  qed
qed

lemma hints_skip_three_prefixes:
  "h \<in> set (fst (provideInlayHints enabled fetch language d cache)) \<Longrightarrow>
   \<not> skippedByHints (trim (lines d ! fst (position h))) \<and> fst (position h) < min (lineCount d) 100"
proof -
  assume "h \<in> set (fst (provideInlayHints enabled fetch language d cache))"
  then have "fst (position h) \<in>
      set (map (\<lambda>h. fst (position h)) (fst (provideInlayHints enabled fetch language d cache)))"
    by force
  then show ?thesis by (auto simp: hint_lines split: if_splits)
qed

text \<open>
  C4 at a Python file whose first line is the comment \<open># setup\<close>: the hint provider
  requests and shows an explanation for the comment (line 0) as for the code (line 1),
  where selection mode, with both lines selected, keeps the code line alone.
\<close>

theorem hash_comment_line_gets_a_hint:
  "map (\<lambda>h. fst (position h))
     (fst (provideInlayHints True lineOffline (js ''English'') pythonDocument noCache)) = [0, 1] \<and>
   linesToInterpret (Some pythonDocument) [pythonSelection] = Some [(1, js ''x = 1'')]"
  by code_simp

text \<open>
  C7. With auto-interpret on, the hints are those of the lines among the first 100 that
  the guard does not skip, in ascending line order; with it off there is none. Selection
  mode sends every selected line that is a code line, however many there are, and one
  selection selects all its lines from the first to the last.
\<close>

theorem auto_mode_capped_selection_uncapped:
  "map (\<lambda>h. fst (position h)) (fst (provideInlayHints True fetch language d cache)) =
     filter (\<lambda>j. \<not> skippedByHints (trim (lines d ! j))) [0 ..< min (lineCount d) 100] \<and>
   (\<forall>h \<in> set (fst (provideInlayHints enabled fetch language d cache)). fst (position h) < 100) \<and>
   sorted_wrt (<) (map (\<lambda>h. fst (position h))
     (fst (provideInlayHints enabled fetch language d cache))) \<and>
   length (fst (provideInlayHints enabled fetch language d cache)) \<le> 100 \<and>
   (selections \<noteq> [] \<and> \<not> list_all isEmpty selections \<and>
    (\<forall>n \<in> set (selectedLinesOf selections). n < lineCount d) \<longrightarrow>
      linesToInterpret (Some d) selections =
        Some (map (\<lambda>n. (n, trim (lines d ! n)))
               (filter (\<lambda>n. isCodeLine (trim (lines d ! n))) (selectedLinesOf selections)))) \<and>
   selectedLinesOf [s] = [start_line s ..< Suc (end_line s)]"
proof -
  have 1: "map (\<lambda>h. fst (position h)) (fst (provideInlayHints True fetch language d cache)) =
     filter (\<lambda>j. \<not> skippedByHints (trim (lines d ! j))) [0 ..< min (lineCount d) 100]"
    by (simp add: hint_lines)
  have 2: "\<forall>h \<in> set (fst (provideInlayHints enabled fetch language d cache)). fst (position h) < 100"
    using hints_skip_three_prefixes by fastforce
  have 3: "sorted_wrt (<) (map (\<lambda>h. fst (position h))
     (fst (provideInlayHints enabled fetch language d cache)))"
    by (simp add: hint_lines sorted_wrt_filter)
  have "length (filter (\<lambda>j. \<not> skippedByHints (trim (lines d ! j))) [0 ..< min (lineCount d) 100])
      \<le> length [0 ..< min (lineCount d) 100]"
    by (rule length_filter_le)
  then have "length (map (\<lambda>h. fst (position h))
      (fst (provideInlayHints enabled fetch language d cache))) \<le> 100"
    unfolding hint_lines by simp
  then have 4: "length (fst (provideInlayHints enabled fetch language d cache)) \<le> 100"
    by simp
  have 5: "selections \<noteq> [] \<and> \<not> list_all isEmpty selections \<and>
    (\<forall>n \<in> set (selectedLinesOf selections). n < lineCount d) \<longrightarrow>
      linesToInterpret (Some d) selections =
        Some (map (\<lambda>n. (n, trim (lines d ! n)))
               (filter (\<lambda>n. isCodeLine (trim (lines d ! n))) (selectedLinesOf selections)))"
    by (simp add: linesToInterpret_def collectCodeLines_eq)
  from 1 2 3 4 5 selectedLinesOf_single show ?thesis by blast
qed

text \<open>
  The theorem at a file of 101 code lines, all of them selected: 100 hints, 101 lines sent
  by selection mode.
\<close>

theorem auto_mode_capped_selection_uncapped_witness:
  "length (fst (provideInlayHints True lineOffline (js ''English'') longDocument noCache)) = 100 \<and>
   lineCount longDocument = 101 \<and>
   map_option length (linesToInterpret (Some longDocument) [wholeSelection]) = Some 101"
proof -
  note inst = auto_mode_capped_selection_uncapped
    [of lineOffline "js ''English''" longDocument noCache True "[wholeSelection]" wholeSelection]
  note hints = inst [THEN conjunct1]
  note units = inst [THEN conjunct2, THEN conjunct2, THEN conjunct2, THEN conjunct2,
    THEN conjunct1, THEN mp]
  note single = inst [THEN conjunct2, THEN conjunct2, THEN conjunct2, THEN conjunct2,
    THEN conjunct2]
  have lc: "lineCount longDocument = 101"
    by (simp add: lineCount_def longDocument_def)
  have line: "j < 101 \<Longrightarrow> lines longDocument ! j = js ''f();''" for j
    by (simp add: longDocument_def)
  have ns: "\<not> skippedByHints (trim (js ''f();''))" and code: "isCodeLine (trim (js ''f();''))"
    by code_simp+
  have "filter (\<lambda>j. \<not> skippedByHints (trim (lines longDocument ! j))) [0 ..< 100] = [0 ..< 100]"
    using line ns by (simp add: filter_id_conv)
  with hints lc have
    "map (\<lambda>h. fst (position h))
       (fst (provideInlayHints True lineOffline (js ''English'') longDocument noCache)) = [0 ..< 100]"
    by simp
  then have "length (map (\<lambda>h. fst (position h))
       (fst (provideInlayHints True lineOffline (js ''English'') longDocument noCache))) = 100"
    by (simp del: length_map)
  then have 1: "length (fst (provideInlayHints True lineOffline (js ''English'') longDocument noCache)) = 100"
    by simp
  have sel: "selectedLinesOf [wholeSelection] = [0 ..< Suc 100]"
    unfolding single by (simp only: wholeSelection_def selection.simps)
  have all: "filter (\<lambda>n. isCodeLine (trim (lines longDocument ! n))) [0 ..< Suc 100] = [0 ..< Suc 100]"
    unfolding filter_id_conv using line code by simp
  have "\<forall>n \<in> set (selectedLinesOf [wholeSelection]). n < lineCount longDocument"
    unfolding sel lc by simp
  moreover have "\<not> list_all isEmpty [wholeSelection]"
    by (simp add: isEmpty_def wholeSelection_def)
  ultimately have inside: "[wholeSelection] \<noteq> [] \<and> \<not> list_all isEmpty [wholeSelection] \<and>
      (\<forall>n \<in> set (selectedLinesOf [wholeSelection]). n < lineCount longDocument)"
    by simp
  have "linesToInterpret (Some longDocument) [wholeSelection] =
      Some (map (\<lambda>n. (n, trim (lines longDocument ! n))) [0 ..< Suc 100])"
    unfolding units [OF inside] unfolding sel all ..
  then have 2: "map_option length (linesToInterpret (Some longDocument) [wholeSelection]) = Some 101"
    by (simp del: upt_Suc)
  from 1 lc 2 show ?thesis by simp
qed


section \<open>Facts about the persistent comments\<close>







lemma collapse_Nil: "collapseWhiteSpace t = [] \<longleftrightarrow> t = []"
  by (cases t) auto

















lemma insertLines_append: "insertLines (a @ b) = insertLines a @ insertLines b"
  by (induction a rule: insertLines.induct) auto

lemma insertLines_Delete: "insertLines (map Delete xs) = []"
  by (induction xs) auto

lemma editLoop_inserts:
  "editLoop d m ks edits A = (Some es, B) \<Longrightarrow>
   insertLines es = insertLines edits @ map Suc (filter (\<lambda>k. truthy (map_of m k)) ks)"
proof (induction ks arbitrary: edits A)
  case Nil
  then show ?case by simp
next
  case (Cons k ks)
  show ?case
  proof (cases "truthy (map_of m k)")
    case False
    with Cons.prems have "editLoop d m ks edits A = (Some es, B)" by simp
    from Cons.IH [OF this] False show ?thesis by simp
  next
    case True
    show ?thesis
    proof (cases "lineAt d k")
      case None
      with True Cons.prems show ?thesis by (simp add: Let_def)
    next
      case (Some codeLineText)
      define deletions where
        "deletions = (if k \<in> A then map Delete (deleteLoop d (k + 1)) else [])"
      define commentText where
        "commentText = commentTextOf (takeWhile isWhiteSpace codeLineText)
           (getCommentPrefix (languageId d)) (getCommentSuffix (languageId d))
           (orElse (map_of m k) [])"
      from True Some Cons.prems have
        "editLoop d m ks (edits @ deletions @ [Insert (k + 1, 0) commentText]) (insert k A) =
           (Some es, B)"
        by (simp add: Let_def deletions_def commentText_def)
      from Cons.IH [OF this] True show ?thesis
        by (simp add: insertLines_append insertLines_Delete deletions_def)
    qed
  qed
qed

lemma editLoop_total:
  "\<forall>k \<in> set ks. k < lineCount d \<Longrightarrow> \<exists>es B. editLoop d m ks edits A = (Some es, B)"
proof (induction ks arbitrary: edits A)
  case Nil
  show ?case by simp
next
  case (Cons k ks)
  then have IH: "\<exists>es B. editLoop d m ks edits' A' = (Some es, B)" for edits' A' by simp
  from Cons.prems have "lineAt d k = Some (lines d ! k)" by (simp add: lineAt_def)
  then show ?case using IH by (simp add: Let_def)
qed

lemma descending_keys:
  "distinct ks \<Longrightarrow> sorted_wrt (>) (map Suc (filter Q (rev (sort ks))))"
proof -
  assume "distinct ks"
  then have "sorted_wrt (<) (sort ks)" by (simp add: strict_sorted_iff)
  then have "sorted_wrt (>) (rev (sort ks))" by (simp add: sorted_wrt_rev)
  then have "sorted_wrt (>) (filter Q (rev (sort ks)))" by (rule sorted_wrt_filter)
  then show ?thesis by (simp add: sorted_wrt_map)
qed

text \<open>
  C5. The insertions of one call are all given to one edit transaction, and the lines at
  which they insert are in strictly descending order: they are the lines below the keys
  of the explanations that are not empty, the keys sorted downwards. The transaction is
  made whenever the document is the one of the active editor and every key is a line of
  it. (The keys of a JavaScript \<open>Map\<close> are distinct.)
\<close>

theorem insertions_in_descending_order:
  "distinct (map fst explanationMap) \<Longrightarrow>
   (\<forall>edits. fst (insertCommentsAsExplanations activeEditor d explanationMap insertedComments) =
        Edited edits \<longrightarrow>
      sorted_wrt (>) (insertLines edits) \<and>
      insertLines edits =
        map Suc (filter (\<lambda>k. truthy (map_of explanationMap k)) (rev (sort (map fst explanationMap))))) \<and>
   (activeEditor = Some (uri d) \<and> (\<forall>k \<in> set (map fst explanationMap). k < lineCount d) \<longrightarrow>
      (\<exists>edits. fst (insertCommentsAsExplanations activeEditor d explanationMap insertedComments) =
         Edited edits))"
proof (rule conjI)
  assume dist: "distinct (map fst explanationMap)"
  show "\<forall>edits. fst (insertCommentsAsExplanations activeEditor d explanationMap insertedComments) =
        Edited edits \<longrightarrow>
      sorted_wrt (>) (insertLines edits) \<and>
      insertLines edits =
        map Suc (filter (\<lambda>k. truthy (map_of explanationMap k)) (rev (sort (map fst explanationMap))))"
  proof (intro allI impI)
    fix edits
    assume r: "fst (insertCommentsAsExplanations activeEditor d explanationMap insertedComments) =
        Edited edits"
    define A where "A = (case insertedComments (uri d) of Some s \<Rightarrow> s | None \<Rightarrow> {})"
    obtain es B where
      loop: "editLoop d explanationMap (rev (sort (map fst explanationMap))) [] A = (es, B)"
      by (cases "editLoop d explanationMap (rev (sort (map fst explanationMap))) [] A")
    from r have act: "activeEditor = Some (uri d)"
      by (auto simp: insertCommentsAsExplanations_def split: option.splits if_splits)
    with r loop have "es = Some edits"
      by (auto simp: insertCommentsAsExplanations_def A_def Let_def split: option.splits)
    with loop have "insertLines edits =
        map Suc (filter (\<lambda>k. truthy (map_of explanationMap k)) (rev (sort (map fst explanationMap))))"
      using editLoop_inserts by fastforce
    with descending_keys [OF dist] show "sorted_wrt (>) (insertLines edits) \<and>
      insertLines edits =
        map Suc (filter (\<lambda>k. truthy (map_of explanationMap k)) (rev (sort (map fst explanationMap))))"
      by simp
  qed
next
  show "activeEditor = Some (uri d) \<and> (\<forall>k \<in> set (map fst explanationMap). k < lineCount d) \<longrightarrow>
      (\<exists>edits. fst (insertCommentsAsExplanations activeEditor d explanationMap insertedComments) =
         Edited edits)"
  proof
    assume h: "activeEditor = Some (uri d) \<and> (\<forall>k \<in> set (map fst explanationMap). k < lineCount d)"
    define A where "A = (case insertedComments (uri d) of Some s \<Rightarrow> s | None \<Rightarrow> {})"
    from h have "\<forall>k \<in> set (rev (sort (map fst explanationMap))). k < lineCount d" by simp
    from editLoop_total [OF this] obtain es B where
      "editLoop d explanationMap (rev (sort (map fst explanationMap))) [] A = (Some es, B)"
      by blast
    with h show "\<exists>edits. fst (insertCommentsAsExplanations activeEditor d explanationMap insertedComments) =
         Edited edits"
      by (simp add: insertCommentsAsExplanations_def A_def Let_def)
  qed
qed

text \<open>
  C10. When there is no active editor, or the document of the active editor has another
  URI than the document passed in, the call makes no edit and returns the record of the
  annotated lines as it was.
\<close>

theorem other_editor_changes_nothing:
  "activeEditor \<noteq> Some (uri d) \<Longrightarrow>
   insertCommentsAsExplanations activeEditor d explanationMap insertedComments =
     (NotEdited, insertedComments)"
  by (simp add: insertCommentsAsExplanations_def split: option.splits)


text \<open>
  The theorem at the Python file with an explanation for each of its two lines: the
  comment for line 1 is inserted at line 2 first, then the comment for line 0 at line 1.
\<close>

theorem insertions_in_descending_order_witness:
  "fst (insertCommentsAsExplanations (Some (uri pythonDocument)) pythonDocument demoExplanations
      noComments) =
     Edited [Insert (2, 0) (js ''# '' @ brain @ js '' Sets x to 1'' @ [0xA]),
             Insert (1, 0) (js ''# '' @ brain @ js '' Marks the start of the setup'' @ [0xA])] \<and>
   sorted_wrt (>) (insertLines
     [Insert (2, 0) (js ''# '' @ brain @ js '' Sets x to 1'' @ [0xA]),
      Insert (1, 0) (js ''# '' @ brain @ js '' Marks the start of the setup'' @ [0xA])])"
proof -
  let ?edits = "[Insert (2, 0) (js ''# '' @ brain @ js '' Sets x to 1'' @ [0xA]),
      Insert (1, 0) (js ''# '' @ brain @ js '' Marks the start of the setup'' @ [0xA])]"
  have dist: "distinct (map fst demoExplanations)"
    by (simp add: demoExplanations_def)
  have run: "fst (insertCommentsAsExplanations (Some (uri pythonDocument)) pythonDocument
      demoExplanations noComments) = Edited ?edits"
    by code_simp
  have "sorted_wrt (>) (insertLines ?edits)"
    by (rule insertions_in_descending_order
      [OF dist, THEN conjunct1, rule_format, OF run, THEN conjunct1])
  with run show ?thesis by simp
qed

text \<open>The theorem with no active editor, and with an editor on another file.\<close>

theorem other_editor_changes_nothing_witness:
  "insertCommentsAsExplanations None pythonDocument demoExplanations noComments =
     (NotEdited, noComments) \<and>
   insertCommentsAsExplanations (Some (js ''file:///other.py'')) pythonDocument demoExplanations
     noComments = (NotEdited, noComments)"
proof -
  have other: "Some (js ''file:///other.py'') \<noteq> Some (uri pythonDocument)"
    by (simp add: pythonDocument_def js_def)
  from other_editor_changes_nothing [of None pythonDocument demoExplanations noComments]
    other_editor_changes_nothing [OF other, of demoExplanations noComments]
  show ?thesis by simp
qed





















section \<open>Facts about block mode\<close>

lemma scanChar_other: "c \<noteq> 0x7B \<Longrightarrow> c \<noteq> 0x7D \<Longrightarrow> scanChar ls i b st c = st"
  by (simp add: scanChar_def)

lemma scan_braceFree_chars:
  "0x7B \<notin> set cs \<Longrightarrow> 0x7D \<notin> set cs \<Longrightarrow> foldl (scanChar ls i b) st cs = st"
  by (induction cs) (auto simp: scanChar_other)

lemma scanLine_skipped: "\<not> countsBraces line \<Longrightarrow> scanLine ls st (i, line) = st"
  by (auto simp: scanLine_def countsBraces_def Let_def)

lemma scanLine_counted:
  "countsBraces line \<Longrightarrow>
   scanLine ls st (i, line) = foldl (scanChar ls i (isBlockStart (trim line))) st line"
  by (auto simp: scanLine_def countsBraces_def Let_def)

lemma scanLine_braceFree: "braceFree line \<Longrightarrow> scanLine ls st (i, line) = st"
  by (cases "countsBraces line")
    (simp_all add: scanLine_skipped scanLine_counted braceFree_def scan_braceFree_chars)

lemma scanLines_idle:
  "\<forall>line \<in> set xs. braceFree line \<or> \<not> countsBraces line \<Longrightarrow>
   foldl (scanLine ls) st (enumerate k xs) = st"
  by (induction xs arbitrary: k) (auto simp: scanLine_braceFree scanLine_skipped)

text \<open>Inside an open block the scan only counts: the depth follows the nesting.\<close>

lemma scan_nested_chars:
  "nest k cs = Some j \<Longrightarrow> braceDepth st = int (Suc k) \<Longrightarrow>
   foldl (scanChar ls i b) st cs = st\<lparr>braceDepth := int (Suc j)\<rparr>"
proof (induction cs arbitrary: k st)
  case Nil
  then show ?case by simp
next
  case (Cons c cs)
  show ?case
  proof (cases "c = 0x7B")
    case True
    with Cons.prems have n: "nest (Suc k) cs = Some j" by simp
    have s: "scanChar ls i b st c = st\<lparr>braceDepth := int (Suc (Suc k))\<rparr>"
      using True Cons.prems(2) by (simp add: scanChar_def)
    have "foldl (scanChar ls i b) (st\<lparr>braceDepth := int (Suc (Suc k))\<rparr>) cs =
        st\<lparr>braceDepth := int (Suc (Suc k))\<rparr>\<lparr>braceDepth := int (Suc j)\<rparr>"
      by (rule Cons.IH [OF n]) simp
    with s show ?thesis by simp
  next
    case other: False
    show ?thesis
    proof (cases "c = 0x7D")
      case True
      with other Cons.prems obtain m where k: "k = Suc m" and n: "nest m cs = Some j"
        by (cases k) auto
      have s: "scanChar ls i b st c = st\<lparr>braceDepth := int (Suc m)\<rparr>"
        using True other Cons.prems(2) k by (simp add: scanChar_def)
      have "foldl (scanChar ls i b) (st\<lparr>braceDepth := int (Suc m)\<rparr>) cs =
          st\<lparr>braceDepth := int (Suc m)\<rparr>\<lparr>braceDepth := int (Suc j)\<rparr>"
        by (rule Cons.IH [OF n]) simp
      with s show ?thesis by simp
    next
      case False
      with other Cons.prems have n: "nest k cs = Some j" by simp
      from other False have "scanChar ls i b st c = st" by (simp add: scanChar_other)
      with Cons.IH [OF n Cons.prems(2)] show ?thesis by simp
    qed
  qed
qed

lemma scanLines_nested:
  "nestLines k (filter countsBraces xs) = Some j \<Longrightarrow> braceDepth st = int (Suc k) \<Longrightarrow>
   foldl (scanLine ls) st (enumerate i xs) = st\<lparr>braceDepth := int (Suc j)\<rparr>"
proof (induction xs arbitrary: k st i)
  case Nil
  then show ?case by simp
next
  case (Cons line xs)
  show ?case
  proof (cases "countsBraces line")
    case True
    with Cons.prems(1) obtain m where
      l: "nest k line = Some m" and r: "nestLines m (filter countsBraces xs) = Some j"
      by (auto split: option.splits)
    from l Cons.prems(2) True have s: "scanLine ls st (i, line) = st\<lparr>braceDepth := int (Suc m)\<rparr>"
      by (simp add: scanLine_counted scan_nested_chars)
    have "foldl (scanLine ls) (st\<lparr>braceDepth := int (Suc m)\<rparr>) (enumerate (Suc i) xs) =
        st\<lparr>braceDepth := int (Suc m)\<rparr>\<lparr>braceDepth := int (Suc j)\<rparr>"
      by (rule Cons.IH [OF r]) simp
    with s show ?thesis by simp
  next
    case False
    with Cons.prems(1) have r: "nestLines k (filter countsBraces xs) = Some j" by simp
    from False have "scanLine ls st (i, line) = st" by (rule scanLine_skipped)
    with Cons.IH [OF r Cons.prems(2)] show ?thesis by simp
  qed
qed

lemma nestLines_append:
  "nestLines k (xs @ ys) = (case nestLines k xs of None \<Rightarrow> None | Some j \<Rightarrow> nestLines j ys)"
  by (induction xs arbitrary: k) (auto split: option.splits)

lemma function_line_counts:
  "startsWith (trim line) (js ''function'') \<Longrightarrow> countsBraces line \<and> isBlockStart (trim line)"
proof -
  assume a: "startsWith (trim line) (js ''function'')"
  then obtain r where t: "trim line = js ''function'' @ r"
    by (metis append_take_drop_id startsWith_def)
  have "countsBraces line"
    by (simp add: countsBraces_def t startsWith_def js_def)
  moreover have "dropWhile isWhiteSpace (trim line) = trim line"
    by (simp add: t js_def isWhiteSpace_def)
  with a have "isBlockStart (trim line)"
    by (simp add: isBlockStart_def blockKeywords_def)
  ultimately show ?thesis ..
qed

lemma scanLine_header:
  assumes "braceFree ha" "nest 0 hb = Some k" "startsWith (trim (ha @ 0x7B # hb)) (js ''function'')"
    "braceDepth st = 0"
  shows "scanLine ls st (i, ha @ 0x7B # hb) = st\<lparr>blockStart := Some i, braceDepth := int (Suc k)\<rparr>"
proof -
  let ?b = "isBlockStart (trim (ha @ 0x7B # hb))"
  from function_line_counts [OF assms(3)] have c: "countsBraces (ha @ 0x7B # hb)" and b: "?b"
    by simp_all
  have 1: "foldl (scanChar ls i ?b) st ha = st"
    using assms(1) by (simp add: braceFree_def scan_braceFree_chars)
  have 2: "scanChar ls i ?b st 0x7B = st\<lparr>blockStart := Some i, braceDepth := int (Suc 0)\<rparr>"
    using assms(4) b by (simp add: scanChar_def)
  have 3: "foldl (scanChar ls i ?b) (st\<lparr>blockStart := Some i, braceDepth := int (Suc 0)\<rparr>) hb =
      st\<lparr>blockStart := Some i, braceDepth := int (Suc 0)\<rparr>\<lparr>braceDepth := int (Suc k)\<rparr>"
    by (rule scan_nested_chars [OF assms(2)]) simp
  show ?thesis
    unfolding scanLine_counted [OF c] by (simp only: foldl_append foldl.simps 1 2 3) simp
qed

lemma scanLine_closer:
  assumes "nest k ca = Some 0" "braceFree cb" "countsBraces (ca @ 0x7D # cb)"
    "braceDepth st = int (Suc k)" "blockStart st = Some s"
  shows "scanLine ls st (i, ca @ 0x7D # cb) =
     st\<lparr>braceDepth := 0,
        blocks := blocks st @
          [\<lparr>startLine = s, endLine = i, code = join (slice ls s (i + 1)) [0xA]\<rparr>],
        blockStart := None\<rparr>"
proof -
  let ?b = "isBlockStart (trim (ca @ 0x7D # cb))"
  let ?done = "st\<lparr>braceDepth := 0,
        blocks := blocks st @
          [\<lparr>startLine = s, endLine = i, code = join (slice ls s (i + 1)) [0xA]\<rparr>],
        blockStart := None\<rparr>"
  have 1: "foldl (scanChar ls i ?b) st ca = st\<lparr>braceDepth := int (Suc 0)\<rparr>"
    using scan_nested_chars [OF assms(1,4)] by simp
  have 2: "scanChar ls i ?b (st\<lparr>braceDepth := int (Suc 0)\<rparr>) 0x7D = ?done"
    using assms(5) by (simp add: scanChar_def)
  have 3: "foldl (scanChar ls i ?b) ?done cb = ?done"
    using assms(2) by (simp add: braceFree_def scan_braceFree_chars)
  show ?thesis
    unfolding scanLine_counted [OF assms(3)] by (simp only: foldl_append foldl.simps 1 2 3)
qed

lemma slice_middle: "slice (pre @ mid @ post) (length pre) (length pre + length mid) = mid"
  by (simp add: slice_def)

text \<open>
  The first half of what the specification says of block mode holds. Take a document
  that holds one well-formed function between lines that have no braces or are passed
  over: a line that starts with \<open>function\<close> and has the opening brace, then text in
  which the braces of the lines that are not passed over are well nested, then a line
  with the closing brace that matches the opening one. \<open>parseCodeBlocks\<close> gives exactly
  one block, from the \<open>function\<close> line to the line of that closing brace, with the text
  of these lines.
\<close>

lemma parseCodeBlocks_function:
  assumes "\<forall>line \<in> set pre. braceFree line \<or> \<not> countsBraces line"
    "\<forall>line \<in> set post. braceFree line \<or> \<not> countsBraces line"
    "braceFree ha" "startsWith (trim (ha @ 0x7B # hb)) (js ''function'')"
    "braceFree cb" "countsBraces (ca @ 0x7D # cb)"
    "nestLines 0 ([hb] @ filter countsBraces inner @ [ca]) = Some 0"
    "lines d = pre @ [ha @ 0x7B # hb] @ inner @ [ca @ 0x7D # cb] @ post"
  shows "parseCodeBlocks d =
     [\<lparr>startLine = length pre, endLine = length pre + length inner + 1,
       code = join ([ha @ 0x7B # hb] @ inner @ [ca @ 0x7D # cb]) [0xA]\<rparr>]"
proof -
  from assms(7) obtain k j where
    hb: "nest 0 hb = Some k" and inner: "nestLines k (filter countsBraces inner) = Some j" and
    ca: "nest j ca = Some 0"
    by (auto simp: nestLines_append split: option.splits)
  let ?ls = "lines d"
  let ?block = "\<lparr>startLine = length pre, endLine = length pre + length inner + 1,
    code = join (slice ?ls (length pre) (length pre + length inner + 1 + 1)) [0xA]\<rparr>"
  let ?s0 = "\<lparr>braceDepth = 0, blockStart = None, blocks = []\<rparr>"
  let ?s1 = "\<lparr>braceDepth = int (Suc k), blockStart = Some (length pre), blocks = []\<rparr>"
  let ?s2 = "\<lparr>braceDepth = int (Suc j), blockStart = Some (length pre), blocks = []\<rparr>"
  let ?s3 = "\<lparr>braceDepth = 0, blockStart = None, blocks = [?block]\<rparr>"
  have 1: "foldl (scanLine ?ls) ?s0 (enumerate 0 pre) = ?s0"
    using assms(1) by (rule scanLines_idle)
  have 2: "scanLine ?ls ?s0 (length pre, ha @ 0x7B # hb) = ?s1"
    using scanLine_header [OF assms(3) hb assms(4), of ?s0 ?ls "length pre"] by simp
  have 3: "foldl (scanLine ?ls) ?s1 (enumerate (Suc (length pre)) inner) = ?s2"
    using scanLines_nested [OF inner, of ?s1 ?ls "Suc (length pre)"] by simp
  have 4: "scanLine ?ls ?s2 (length pre + length inner + 1, ca @ 0x7D # cb) = ?s3"
    using scanLine_closer [OF ca assms(5,6), of ?s2 "length pre" ?ls "length pre + length inner + 1"]
    by simp
  have 5: "foldl (scanLine ?ls) ?s3 (enumerate (length pre + length inner + 2) post) = ?s3"
    using assms(2) by (rule scanLines_idle)
  have e: "enumerate 0 (pre @ [ha @ 0x7B # hb] @ inner @ [ca @ 0x7D # cb] @ post) =
      enumerate 0 pre @ [(length pre, ha @ 0x7B # hb)] @ enumerate (Suc (length pre)) inner @
      [(length pre + length inner + 1, ca @ 0x7D # cb)] @
      enumerate (length pre + length inner + 2) post"
    by (simp add: enumerate_append_eq)
  have "foldl (scanLine ?ls) ?s0 (enumerate 0 ?ls) = ?s3"
    unfolding assms(8) [THEN arg_cong, of "enumerate 0"] e
    by (simp only: foldl_append foldl.simps 1 2 3 4 5 assms(8) [symmetric])
  moreover have "slice ?ls (length pre) (length pre + length inner + 1 + 1) =
      [ha @ 0x7B # hb] @ inner @ [ca @ 0x7D # cb]"
    using slice_middle [of pre "[ha @ 0x7B # hb] @ inner @ [ca @ 0x7D # cb]" post]
    by (simp add: assms(8))
  ultimately show ?thesis
    by (simp add: parseCodeBlocks_def)
qed

text \<open>
  Without braces the scan finds no block, and the blocks are the lines that are not
  blank and do not start with \<open>//\<close>, \<open>/*\<close> or \<open>*\<close>, one block for each.
\<close>

lemma parseCodeBlocks_no_braces:
  assumes "\<forall>line \<in> set (lines d). braceFree line"
  shows "parseCodeBlocks d =
     map (\<lambda>numbered. \<lparr>startLine = fst numbered, endLine = fst numbered,
                        code = trim (snd numbered)\<rparr>)
       (filter (\<lambda>numbered. countsBraces (snd numbered)) (enumerate 0 (lines d)))"
proof -
  from assms have "\<forall>line \<in> set (lines d). braceFree line \<or> \<not> countsBraces line" by simp
  then have "foldl (scanLine (lines d)) \<lparr>braceDepth = 0, blockStart = None, blocks = []\<rparr>
      (enumerate 0 (lines d)) = \<lparr>braceDepth = 0, blockStart = None, blocks = []\<rparr>"
    by (rule scanLines_idle)
  then show ?thesis
    by (simp add: parseCodeBlocks_def countsBraces_def Let_def)
qed

text \<open>
  C8. The program has the block-mode extractor, \<open>parseCodeBlocks\<close>, and for the
  well-formed function of \<open>functionDocument\<close> it gives exactly one block, from the
  \<open>function\<close> line (line 1) to the line of the matching closing brace (line 7). The
  second half of the claim fails: in a document without braces the line \<open># note\<close>,
  which starts with one of the six comment prefixes of whole-file and selection mode and
  so does not qualify, is a block of its own, because the fall-back loop tests only
  \<open>//\<close>, \<open>/*\<close> and \<open>*\<close>.
\<close>

theorem block_fallback_keeps_hash_comment:
  "map (\<lambda>b. (startLine b, endLine b)) (parseCodeBlocks functionDocument) = [(1, 7)] \<and>
   parseCodeBlocks flatDocument =
     [\<lparr>startLine = 0, endLine = 0, code = js ''x = 1''\<rparr>,
      \<lparr>startLine = 1, endLine = 1, code = js ''# note''\<rparr>,
      \<lparr>startLine = 3, endLine = 3, code = js ''print(x)''\<rparr>] \<and>
   linesToInterpret (Some flatDocument)
       [\<lparr>start_line = 0, start_character = 0, end_line = 3, end_character = 8\<rparr>] =
     Some [(0, js ''x = 1''), (3, js ''print(x)'')] \<and>
   \<not> isCodeLine (trim (js ''# note''))"
  by code_simp

end
